theory Spec2Isabelle
  imports Complex_Main
begin

section \<open>Python floats\<close>

text \<open>
  The program (\<^verbatim>\<open>src/app.py\<close>) computes with Python floats and numpy \<^verbatim>\<open>float64\<close>
  values: IEEE 754 binary64 numbers. A value is a finite number, an infinity or NaN. The
  sign of zero is not modelled: \<^verbatim>\<open>==\<close> and \<^verbatim>\<open>int()\<close> do not see it, Python's
  division raises on either zero, and the one numpy division of the program is followed by
  \<^verbatim>\<open>np.abs\<close>.
\<close>

datatype double = Fin real | PosInf | NegInf | NaN

text \<open>\<open>scale2 a s\<close> is \<open>a\<close> times two to the power \<open>s\<close>.\<close>

definition scale2 :: "real \<Rightarrow> int \<Rightarrow> real" where
  "scale2 a s = (if 0 \<le> s then a * 2 ^ nat s else a / 2 ^ nat (- s))"

text \<open>
  The exponent of the binade of \<open>a \<ge> 0\<close>, found by bisection between \<open>lo\<close> and
  \<open>hi\<close>: the greatest \<open>e\<close> in that range with \<open>2 ^ e \<le> a\<close>, and \<open>lo\<close> when there
  is none (the subnormal numbers share the least exponent).
\<close>

function binade :: "int \<Rightarrow> int \<Rightarrow> real \<Rightarrow> int" where
  "binade lo hi a =
     (if hi \<le> lo then lo
      else if 1 \<le> scale2 a (- ((lo + hi + 1) div 2)) then binade ((lo + hi + 1) div 2) hi a
      else binade lo ((lo + hi + 1) div 2 - 1) a)"
  by pat_completeness auto
termination
  by (relation "measure (\<lambda>(lo, hi, a). nat (hi - lo))") auto

declare binade.simps [simp del]

text \<open>
  Rounding \<open>m\<close> to the nearest integer, a tie to the even one; \<open>f\<close> is the floor of
  \<open>m\<close>.
\<close>

definition nearest_even :: "real \<Rightarrow> int \<Rightarrow> int" where
  "nearest_even m f =
     (if m - of_int f < 1 / 2 then f
      else if 1 / 2 < m - of_int f then f + 1
      else if even f then f else f + 1)"

definition round_half_even :: "real \<Rightarrow> int" where
  "round_half_even m = nearest_even m \<lfloor>m\<rfloor>"

text \<open>
  Rounding a magnitude \<open>a \<ge> 0\<close> to binary64, to nearest and ties to even: 53 significant
  bits in the binade of \<open>a\<close> (its exponent \<open>e\<close> from \<open>-1022\<close> to \<open>1023\<close>, gradual
  underflow below), and infinity when the rounded value reaches \<open>2 ^ 1024\<close>.
\<close>

definition overflow_check :: "real \<Rightarrow> double" where
  "overflow_check v = (if 2 ^ 1024 \<le> v then PosInf else Fin v)"

definition round_in_binade :: "real \<Rightarrow> int \<Rightarrow> double" where
  "round_in_binade a e =
     overflow_check (scale2 (of_int (round_half_even (scale2 a (52 - e)))) (e - 52))"

definition round_magnitude :: "real \<Rightarrow> double" where
  "round_magnitude a = round_in_binade a (binade (- 1022) 1023 a)"

fun float_neg :: "double \<Rightarrow> double" where
  "float_neg (Fin v) = Fin (- v)"
| "float_neg PosInf = NegInf"
| "float_neg NegInf = PosInf"
| "float_neg NaN = NaN"

definition fl_round :: "real \<Rightarrow> double" where
  "fl_round r = (if r < 0 then float_neg (round_magnitude (- r)) else round_magnitude r)"

text \<open>
  The float that a decimal literal denotes, \<^verbatim>\<open>0.1\<close> say, is the binary64 number
  nearest to it.
\<close>

definition float_of :: "real \<Rightarrow> double" where
  "float_of r = fl_round r"

text \<open>A finite value that rounding leaves as it is: a binary64 number.\<close>

fun is_finite_double :: "double \<Rightarrow> bool" where
  "is_finite_double (Fin v) = (fl_round v = Fin v)"
| "is_finite_double d = False"

text \<open>
  The arithmetic of IEEE 754: the exact result rounded, and the usual rules for the
  infinities and NaN. Python's \<^verbatim>\<open>+\<close>, \<^verbatim>\<open>-\<close> and \<^verbatim>\<open>*\<close> on floats and numpy's on
  \<^verbatim>\<open>float64\<close> are these; none of them raises.
\<close>

fun float_add :: "double \<Rightarrow> double \<Rightarrow> double" where
  "float_add (Fin a) (Fin b) = fl_round (a + b)"
| "float_add NaN d = NaN"
| "float_add d NaN = NaN"
| "float_add PosInf NegInf = NaN"
| "float_add NegInf PosInf = NaN"
| "float_add PosInf d = PosInf"
| "float_add NegInf d = NegInf"
| "float_add d PosInf = PosInf"
| "float_add d NegInf = NegInf"

definition float_sub :: "double \<Rightarrow> double \<Rightarrow> double" where
  "float_sub a b = float_add a (float_neg b)"

fun float_mul :: "double \<Rightarrow> double \<Rightarrow> double" where
  "float_mul (Fin a) (Fin b) = fl_round (a * b)"
| "float_mul NaN d = NaN"
| "float_mul d NaN = NaN"
| "float_mul PosInf (Fin b) = (if b = 0 then NaN else if 0 < b then PosInf else NegInf)"
| "float_mul NegInf (Fin b) = (if b = 0 then NaN else if 0 < b then NegInf else PosInf)"
| "float_mul (Fin a) PosInf = (if a = 0 then NaN else if 0 < a then PosInf else NegInf)"
| "float_mul (Fin a) NegInf = (if a = 0 then NaN else if 0 < a then NegInf else PosInf)"
| "float_mul PosInf PosInf = PosInf"
| "float_mul NegInf NegInf = PosInf"
| "float_mul PosInf NegInf = NegInf"
| "float_mul NegInf PosInf = NegInf"

text \<open>
  Division as numpy does it on \<^verbatim>\<open>float64\<close>: a zero divisor gives NaN for \<open>0 / 0\<close> and
  an infinity otherwise, and nothing is raised.
\<close>

fun float_div :: "double \<Rightarrow> double \<Rightarrow> double" where
  "float_div (Fin a) (Fin b) =
     (if b = 0 then (if a = 0 then NaN else if 0 < a then PosInf else NegInf)
      else fl_round (a / b))"
| "float_div NaN d = NaN"
| "float_div d NaN = NaN"
| "float_div (Fin a) d = Fin 0"
| "float_div PosInf (Fin b) = (if 0 \<le> b then PosInf else NegInf)"
| "float_div NegInf (Fin b) = (if 0 \<le> b then NegInf else PosInf)"
| "float_div d e = NaN"

fun float_abs :: "double \<Rightarrow> double" where
  "float_abs (Fin r) = Fin \<bar>r\<bar>"
| "float_abs PosInf = PosInf"
| "float_abs NegInf = PosInf"
| "float_abs NaN = NaN"

text \<open>The comparisons \<^verbatim>\<open><\<close> and \<^verbatim>\<open><=\<close>: false as soon as an operand is NaN.\<close>

fun float_le :: "double \<Rightarrow> double \<Rightarrow> bool" where
  "float_le NaN w = False"
| "float_le v NaN = False"
| "float_le NegInf w = True"
| "float_le v PosInf = True"
| "float_le (Fin a) (Fin b) = (a \<le> b)"
| "float_le v w = False"

fun float_lt :: "double \<Rightarrow> double \<Rightarrow> bool" where
  "float_lt NaN w = False"
| "float_lt v NaN = False"
| "float_lt (Fin a) (Fin b) = (a < b)"
| "float_lt PosInf w = False"
| "float_lt v NegInf = False"
| "float_lt v w = True"

fun is_nan :: "double \<Rightarrow> bool" where
  "is_nan NaN = True"
| "is_nan v = False"

section \<open>Python's built-ins\<close>

datatype py_error = ZeroDivisionError | OverflowError | ValueError

text \<open>Python's \<^verbatim>\<open>a / b\<close> on floats raises \<^verbatim>\<open>ZeroDivisionError\<close> on a zero divisor.\<close>

fun py_truediv :: "double \<Rightarrow> double \<Rightarrow> py_error + double" where
  "py_truediv a (Fin b) = (if b = 0 then Inl ZeroDivisionError else Inr (float_div a (Fin b)))"
| "py_truediv a b = Inr (float_div a b)"

text \<open>
  \<^verbatim>\<open>int(r)\<close> on a float truncates towards zero; it raises \<^verbatim>\<open>OverflowError\<close> on an
  infinity and \<^verbatim>\<open>ValueError\<close> on NaN.
\<close>

fun int_py :: "double \<Rightarrow> py_error + int" where
  "int_py (Fin r) = Inr (if 0 \<le> r then \<lfloor>r\<rfloor> else \<lceil>r\<rceil>)"
| "int_py PosInf = Inl OverflowError"
| "int_py NegInf = Inl OverflowError"
| "int_py NaN = Inl ValueError"

text \<open>\<^verbatim>\<open>range(a, b)\<close>: the integers from \<open>a\<close> up to \<open>b - 1\<close>, none when \<open>b \<le> a\<close>.\<close>

definition range_py :: "int \<Rightarrow> int \<Rightarrow> int list" where
  "range_py a b = [a..b - 1]"

section \<open>The stepper\<close>

text \<open>
  The \<^verbatim>\<open>DataFrame\<close> that \<^verbatim>\<open>euler_method\<close> returns, by columns, as
  \<^verbatim>\<open>pd.DataFrame({'Step': ..., 'x': ..., 'y': ..., 'dy/dx': ..., ...})\<close> builds it.
\<close>

record dataframe =
  col_Step :: "int list"
  col_x :: "double list"
  col_y :: "double list"
  col_dy_dx :: "double list"
  col_delta_y :: "double list"

text \<open>\<^verbatim>\<open>len(results_df)\<close>: the number of rows.\<close>

definition len_df :: "dataframe \<Rightarrow> nat" where
  "len_df df = length (col_Step df)"

text \<open>
  Row \<open>i\<close> of the frame, the trace's record \<open>i\<close>: (step, x, y, dy/dx, delta y).
  It is read only at \<open>i < len_df df\<close>.
\<close>

definition record_at :: "dataframe \<Rightarrow> nat \<Rightarrow> int \<times> double \<times> double \<times> double \<times> double" where
  "record_at df i =
     (col_Step df ! i, col_x df ! i, col_y df ! i, col_dy_dx df ! i, col_delta_y df ! i)"

text \<open>
  The local variables of \<^verbatim>\<open>euler_method\<close> that the loop reads and writes: the five
  lists \<^verbatim>\<open>steps\<close>, \<^verbatim>\<open>x_values\<close>, \<^verbatim>\<open>y_values\<close>, \<^verbatim>\<open>dy_dx_values\<close>,
  \<^verbatim>\<open>delta_y_values\<close>, and the current \<^verbatim>\<open>x\<close> and \<^verbatim>\<open>y\<close>.
\<close>

type_synonym locals =
  "int list \<times> double list \<times> double list \<times> double list \<times> double list \<times> double \<times> double"

text \<open>
  The body of \<^verbatim>\<open>for i in range(1, n_steps + 1)\<close>, one equation per iteration: the
  derivative and the increment are computed from the current \<^verbatim>\<open>y\<close>, then
  \<^verbatim>\<open>x\<close> and \<^verbatim>\<open>y\<close> are advanced, then the five values are appended. Each of the
  four operations rounds.
\<close>

fun euler_body :: "double \<Rightarrow> double \<Rightarrow> int \<Rightarrow> locals \<Rightarrow> locals" where
  "euler_body k h i (steps, x_values, y_values, dy_dx_values, delta_y_values, x, y) =
     (let dy_dx = float_mul k y;
          delta_y = float_mul h dy_dx;
          x = float_add x h;
          y = float_add y delta_y
      in (steps @ [i], x_values @ [x], y_values @ [y], dy_dx_values @ [dy_dx],
          delta_y_values @ [delta_y], x, y))"

text \<open>The loop runs the body for each \<open>i\<close> of the range, in order.\<close>

fun euler_loop :: "double \<Rightarrow> double \<Rightarrow> int list \<Rightarrow> locals \<Rightarrow> locals" where
  "euler_loop k h [] st = st"
| "euler_loop k h (i # rest) st = euler_loop k h rest (euler_body k h i st)"

text \<open>
  Line 21, \<^verbatim>\<open>n_steps = int((x_target - x0) / h)\<close>, raises when \<open>h\<close> is zero and when
  the quotient is infinite or NaN; then the function returns nothing.
\<close>

definition euler_method ::
  "double \<Rightarrow> double \<Rightarrow> double \<Rightarrow> double \<Rightarrow> double \<Rightarrow> py_error + dataframe" where
  "euler_method k x0 y0 x_target h =
     (case py_truediv (float_sub x_target x0) h of
        Inl e \<Rightarrow> Inl e
      | Inr q \<Rightarrow>
          (case int_py q of
             Inl e \<Rightarrow> Inl e
           | Inr n_steps \<Rightarrow>
               let (steps, x_values, y_values, dy_dx_values, delta_y_values, x, y) =
                     euler_loop k h (range_py 1 (n_steps + 1))
                       ([0], [x0], [y0], [float_mul k y0], [Fin 0], x0, y0)
               in Inr \<lparr>col_Step = steps, col_x = x_values, col_y = y_values,
                       col_dy_dx = dy_dx_values, col_delta_y = delta_y_values\<rparr>))"

section \<open>The analytical solution\<close>

text \<open>
  \<^verbatim>\<open>y0 * np.exp(k * (x_values - x0))\<close> on an array (or a pandas Series) of x values:
  numpy broadcasts each scalar operation over the elements, one array operation after the
  other, and each operation rounds. \<^verbatim>\<open>np.exp\<close> is taken to be the exponential rounded
  to the nearest float: it is 1 at 0, it underflows to 0 and it overflows to infinity.
\<close>

fun float_exp :: "double \<Rightarrow> double" where
  "float_exp (Fin v) = fl_round (exp v)"
| "float_exp PosInf = PosInf"
| "float_exp NegInf = Fin 0"
| "float_exp NaN = NaN"

definition array_minus_scalar :: "double list \<Rightarrow> double \<Rightarrow> double list" where
  "array_minus_scalar a c = map (\<lambda>v. float_sub v c) a"

definition scalar_times_array :: "double \<Rightarrow> double list \<Rightarrow> double list" where
  "scalar_times_array c a = map (\<lambda>v. float_mul c v) a"

definition np_exp :: "double list \<Rightarrow> double list" where
  "np_exp a = map float_exp a"

definition analytical_solution :: "double \<Rightarrow> double \<Rightarrow> double \<Rightarrow> double list \<Rightarrow> double list" where
  "analytical_solution k x0 y0 x_values =
     scalar_times_array y0 (np_exp (scalar_times_array k (array_minus_scalar x_values x0)))"

section \<open>The error analysis of \<^verbatim>\<open>main\<close>\<close>

text \<open>
  \<^verbatim>\<open>Series.max()\<close> with its default \<^verbatim>\<open>skipna=True\<close>: the NaN entries are left
  out, the greatest of the others is returned, and NaN when there is none.
\<close>

definition series_max :: "double list \<Rightarrow> double" where
  "series_max vs =
     (case filter (\<lambda>v. \<not> is_nan v) vs of
        [] \<Rightarrow> NaN
      | v # rest \<Rightarrow> fold (\<lambda>a m. if float_le m a then a else m) rest v)"

text \<open>
  \<^verbatim>\<open>s - t\<close> and \<^verbatim>\<open>s / t\<close> on two Series with the same index, \<^verbatim>\<open>np.abs\<close> and
  \<^verbatim>\<open>s * c\<close> on a Series.
\<close>

definition series_minus :: "double list \<Rightarrow> double list \<Rightarrow> double list" where
  "series_minus s t = map2 float_sub s t"

definition series_divide :: "double list \<Rightarrow> double list \<Rightarrow> double list" where
  "series_divide s t = map2 float_div s t"

definition np_abs :: "double list \<Rightarrow> double list" where
  "np_abs a = map float_abs a"

definition series_times_scalar :: "double list \<Rightarrow> double \<Rightarrow> double list" where
  "series_times_scalar s c = map (\<lambda>v. float_mul v c) s"

record error_report =
  y_analytical_points :: "double list"
  absolute_errors :: "double list"
  relative_errors :: "double list"
  max_abs_error :: double
  max_rel_error :: double

text \<open>
  Lines 204 to 223 of \<^verbatim>\<open>main\<close>: the analytical values at the trace's x values, the
  absolute and the relative errors (in percent), and their maxima.
\<close>

definition error_analysis :: "double \<Rightarrow> double \<Rightarrow> double \<Rightarrow> dataframe \<Rightarrow> error_report" where
  "error_analysis k x0 y0 results_df =
     (let y_analytical_points = analytical_solution k x0 y0 (col_x results_df);
          absolute_errors = np_abs (series_minus (col_y results_df) y_analytical_points);
          relative_errors =
            series_times_scalar
              (np_abs (series_divide (series_minus (col_y results_df) y_analytical_points)
                 y_analytical_points))
              (Fin 100)
      in \<lparr>y_analytical_points = y_analytical_points,
          absolute_errors = absolute_errors,
          relative_errors = relative_errors,
          max_abs_error = series_max absolute_errors,
          max_rel_error = series_max relative_errors\<rparr>)"

section \<open>The caller: \<^verbatim>\<open>main\<close>\<close>

text \<open>
  What \<^verbatim>\<open>main\<close> does with the five numbers read from the widgets and the state of
  the button: it reports a validation error with \<^verbatim>\<open>st.error\<close> and returns, or does
  nothing, or shows the trace and the error analysis, or reports the exception that the
  calculation raised (\<^verbatim>\<open>except Exception as e\<close>). The layout, the rounding for
  display and the plot are left out, and the five numbers are any floats: the bounds that
  the widget of \<open>h\<close> enforces (0.001 to 1.0) are not assumed.
\<close>

datatype outcome =
  St_error string
| No_calculation
| Results dataframe error_report
| Calculation_error py_error

definition main :: "double \<Rightarrow> double \<Rightarrow> double \<Rightarrow> double \<Rightarrow> double \<Rightarrow> bool \<Rightarrow> outcome" where
  "main k x0 y0 x_target h button =
     (if float_le x_target x0 then
        St_error ''Target x value must be greater than initial x value''
      else if float_le h (Fin 0) then St_error ''Step size must be positive''
      else if button then
        (case euler_method k x0 y0 x_target h of
           Inl e \<Rightarrow> Calculation_error e
         | Inr results_df \<Rightarrow> Results results_df (error_analysis k x0 y0 results_df))
      else No_calculation)"

section \<open>The loop invariant\<close>

text \<open>
  What holds of the local variables before and after every iteration: the five lists have
  the same length, \<^verbatim>\<open>x\<close> and \<^verbatim>\<open>y\<close> are the last stored values, and every stored
  row but the first satisfies the Euler recurrence, each operation rounded.
\<close>

definition euler_inv :: "double \<Rightarrow> double \<Rightarrow> locals \<Rightarrow> bool" where
  "euler_inv k h st =
     (case st of (S, X, Y, D, E, x, y) \<Rightarrow>
        S \<noteq> [] \<and> length X = length S \<and> length Y = length S \<and>
        length D = length S \<and> length E = length S \<and>
        last X = x \<and> last Y = y \<and>
        (\<forall>i. 0 < i \<and> i < length S \<longrightarrow>
           D ! i = float_mul k (Y ! (i - 1)) \<and> E ! i = float_mul h (D ! i) \<and>
           X ! i = float_add (X ! (i - 1)) h \<and> Y ! i = float_add (Y ! (i - 1)) (E ! i)))"

text \<open>
  A value that is zero or NaN; it stays so under the operations of the loop body.
\<close>

definition zero_or_nan :: "double \<Rightarrow> bool" where
  "zero_or_nan d = (d = Fin 0 \<or> d = NaN)"


section \<open>Rounding: the sign of a rounded value\<close>

lemmas float_eval = float_of_def float_sub_def fl_round_def round_magnitude_def
  round_in_binade_def overflow_check_def round_half_even_def nearest_even_def binade.simps
  scale2_def

lemma scale2_nonneg: "0 \<le> a \<Longrightarrow> 0 \<le> scale2 a s"
  by (simp add: scale2_def)

lemma round_half_even_nonneg: "0 \<le> m \<Longrightarrow> 0 \<le> round_half_even m"
  by (simp add: round_half_even_def nearest_even_def)

lemma round_magnitude_nonneg:
  assumes "0 \<le> a"
  shows "round_magnitude a = PosInf \<or> (\<exists>v. 0 \<le> v \<and> round_magnitude a = Fin v)"
proof -
  let ?e = "binade (- 1022) 1023 a"
  let ?v = "scale2 (of_int (round_half_even (scale2 a (52 - ?e)))) (?e - 52)"
  have "0 \<le> round_half_even (scale2 a (52 - ?e))"
    using assms by (intro round_half_even_nonneg scale2_nonneg)
  then have "0 \<le> ?v" by (intro scale2_nonneg) simp
  then show ?thesis
    by (simp add: round_magnitude_def round_in_binade_def overflow_check_def)
qed

lemma fl_round_zero: "fl_round 0 = Fin 0"
  by (simp add: float_eval)

lemma fl_round_nonneg:
  assumes "0 \<le> r"
  shows "fl_round r = PosInf \<or> (\<exists>v. 0 \<le> v \<and> fl_round r = Fin v)"
  using assms round_magnitude_nonneg[of r] by (simp add: fl_round_def)

lemma fl_round_nonpos:
  assumes "r \<le> 0"
  shows "fl_round r = NegInf \<or> (\<exists>v. v \<le> 0 \<and> fl_round r = Fin v)"
proof (cases "r = 0")
  case True
  then show ?thesis by (simp add: fl_round_zero)
next
  case False
  with assms have neg: "r < 0" by simp
  then have "0 \<le> - r" by simp
  from round_magnitude_nonneg[OF this] show ?thesis
  proof
    assume "round_magnitude (- r) = PosInf"
    then show ?thesis using neg by (simp add: fl_round_def)
  next
    assume "\<exists>v. 0 \<le> v \<and> round_magnitude (- r) = Fin v"
    then obtain v where "0 \<le> v" "round_magnitude (- r) = Fin v" by blast
    then have "fl_round r = Fin (- v)" "- v \<le> 0" using neg by (simp_all add: fl_round_def)
    then show ?thesis by blast
  qed
qed

text \<open>The difference and the quotient of line 21 have the sign that the comparison gives.\<close>

lemma float_sub_pos:
  assumes "float_lt x0 x_target"
  shows "float_sub x_target x0 = PosInf \<or> (\<exists>v. 0 \<le> v \<and> float_sub x_target x0 = Fin v)"
proof (cases x0)
  case (Fin a)
  show ?thesis
  proof (cases x_target)
    case (Fin b)
    with \<open>x0 = Fin a\<close> assms have "0 \<le> b + - a" by simp
    from fl_round_nonneg[OF this] show ?thesis
      using Fin \<open>x0 = Fin a\<close> by (simp add: float_sub_def)
  qed (use Fin assms in \<open>simp_all add: float_sub_def\<close>)
qed (use assms in \<open>cases x_target; simp add: float_sub_def\<close>)+

lemma float_sub_neg:
  assumes "float_le x_target x0"
  shows "float_sub x_target x0 = NaN \<or> float_sub x_target x0 = NegInf \<or>
         (\<exists>v. v \<le> 0 \<and> float_sub x_target x0 = Fin v)"
proof (cases x0)
  case (Fin a)
  show ?thesis
  proof (cases x_target)
    case (Fin b)
    with \<open>x0 = Fin a\<close> assms have "b + - a \<le> 0" by simp
    from fl_round_nonpos[OF this] show ?thesis
      using Fin \<open>x0 = Fin a\<close> by (simp add: float_sub_def)
  qed (use Fin assms in \<open>simp_all add: float_sub_def\<close>)
qed (use assms in \<open>cases x_target; simp add: float_sub_def\<close>)+

lemma quotient_nonneg:
  assumes "float_lt x0 x_target" and "float_lt (Fin 0) h"
    and "float_div (float_sub x_target x0) h = Fin q"
  shows "0 \<le> q"
proof -
  from float_sub_pos[OF assms(1)] show ?thesis
  proof
    assume "float_sub x_target x0 = PosInf"
    with assms(2,3) show ?thesis by (cases h) (simp_all split: if_splits)
  next
    assume "\<exists>v. 0 \<le> v \<and> float_sub x_target x0 = Fin v"
    then obtain v where v: "0 \<le> v" "float_sub x_target x0 = Fin v" by blast
    show ?thesis
    proof (cases h)
      case (Fin b)
      with assms(2) have b: "0 < b" by simp
      then have "0 \<le> v / b" using v(1) by simp
      from fl_round_nonneg[OF this] assms(3) v(2) Fin b show ?thesis by auto
    qed (use assms v in simp_all)
  qed
qed

lemma quotient_nonpos:
  assumes "float_le x_target x0" and "float_lt (Fin 0) h"
    and "float_div (float_sub x_target x0) h = Fin q"
  shows "q \<le> 0"
proof -
  from float_sub_neg[OF assms(1)]
  consider "float_sub x_target x0 = NaN" | "float_sub x_target x0 = NegInf"
    | v where "v \<le> 0" "float_sub x_target x0 = Fin v" by blast
  then show ?thesis
  proof cases
    case 1
    with assms(3) show ?thesis by simp
  next
    case 2
    with assms(2,3) show ?thesis by (cases h) (simp_all split: if_splits)
  next
    case 3
    show ?thesis
    proof (cases h)
      case (Fin b)
      with assms(2) have b: "0 < b" by simp
      then have "v / b \<le> 0" using 3(1) by (simp add: divide_le_0_iff)
      from fl_round_nonpos[OF this] assms(3) 3(2) Fin b show ?thesis by auto
    qed (use assms 3 in simp_all)
  qed
qed

section \<open>Properties of the loop\<close>

lemma euler_loop_columns:
  "euler_loop k h js (S, X, Y, D, E, x, y) = (S', X', Y', D', E', x', y') \<Longrightarrow>
   S' = S @ js \<and> (\<exists>X2 Y2 D2 E2. X' = X @ X2 \<and> Y' = Y @ Y2 \<and> D' = D @ D2 \<and> E' = E @ E2)"
proof (induction js arbitrary: S X Y D E x y)
  case Nil
  then show ?case by simp
next
  case (Cons i rest)
  let ?d = "float_mul k y"
  let ?e = "float_mul h ?d"
  from Cons.prems
  have "euler_loop k h rest
          (S @ [i], X @ [float_add x h], Y @ [float_add y ?e], D @ [?d], E @ [?e],
           float_add x h, float_add y ?e) = (S', X', Y', D', E', x', y')"
    by (simp add: Let_def)
  from Cons.IH[OF this] obtain X2 Y2 D2 E2 where
    "S' = (S @ [i]) @ rest" "X' = (X @ [float_add x h]) @ X2"
    "Y' = (Y @ [float_add y ?e]) @ Y2" "D' = (D @ [?d]) @ D2" "E' = (E @ [?e]) @ E2"
    by blast
  then have "S' = S @ i # rest" "X' = X @ (float_add x h # X2)"
    "Y' = Y @ (float_add y ?e # Y2)" "D' = D @ (?d # D2)" "E' = E @ (?e # E2)"
    by simp_all
  then show ?case by blast
qed

lemma euler_inv_body:
  assumes "euler_inv k h (S, X, Y, D, E, x, y)"
  shows "euler_inv k h (euler_body k h i (S, X, Y, D, E, x, y))"
proof -
  let ?d = "float_mul k y"
  let ?e = "float_mul h ?d"
  from assms have ne: "S \<noteq> []"
    and len: "length X = length S" "length Y = length S" "length D = length S"
      "length E = length S"
    and lastX: "last X = x" and lastY: "last Y = y"
    by (simp_all add: euler_inv_def)
  from assms have rec: "\<And>j. 0 < j \<Longrightarrow> j < length S \<Longrightarrow>
      D ! j = float_mul k (Y ! (j - 1)) \<and> E ! j = float_mul h (D ! j) \<and>
      X ! j = float_add (X ! (j - 1)) h \<and> Y ! j = float_add (Y ! (j - 1)) (E ! j)"
    by (simp add: euler_inv_def)
  have "X \<noteq> []" "Y \<noteq> []" using len ne by auto
  then have Xl: "X ! (length S - 1) = x" and Yl: "Y ! (length S - 1) = y"
    using lastX lastY len by (simp_all add: last_conv_nth)
  have step: "(D @ [?d]) ! j = float_mul k ((Y @ [float_add y ?e]) ! (j - 1)) \<and>
      (E @ [?e]) ! j = float_mul h ((D @ [?d]) ! j) \<and>
      (X @ [float_add x h]) ! j = float_add ((X @ [float_add x h]) ! (j - 1)) h \<and>
      (Y @ [float_add y ?e]) ! j =
        float_add ((Y @ [float_add y ?e]) ! (j - 1)) ((E @ [?e]) ! j)"
    if j: "0 < j" "j < length (S @ [i])" for j
  proof (cases "j < length S")
    case True
    then have "j - 1 < length S" by simp
    then show ?thesis using True rec[OF j(1) True] len by (simp add: nth_append)
  next
    case False
    with j have "j = length S" by simp
    moreover have "length S - 1 < length S" using ne by simp
    ultimately show ?thesis using len Xl Yl by (simp add: nth_append)
  qed
  show ?thesis
    unfolding euler_inv_def using len step by (simp add: Let_def)
qed

lemma euler_inv_loop:
  "euler_inv k h st \<Longrightarrow> euler_inv k h (euler_loop k h js st)"
proof (induction js arbitrary: st)
  case Nil
  then show ?case by simp
next
  case (Cons i rest)
  obtain S X Y D E x y where st: "st = (S, X, Y, D, E, x, y)"
    by (cases st) auto
  have "euler_inv k h (euler_body k h i st)"
    using Cons.prems unfolding st by (rule euler_inv_body)
  then have "euler_inv k h (euler_loop k h rest (euler_body k h i st))"
    by (rule Cons.IH)
  then show ?case by simp
qed

lemma euler_inv_init:
  "euler_inv k h ([0], [x0], [y0], [float_mul k y0], [Fin 0], x0, y0)"
  by (simp add: euler_inv_def)

lemma length_range_py: "length (range_py 1 (n + 1)) = nat n"
  by (simp add: range_py_def)

lemma range_py_nth: "i < nat n \<Longrightarrow> range_py 1 (n + 1) ! i = int i + 1"
  by (simp add: range_py_def)

lemma range_py_empty: "n \<le> 0 \<Longrightarrow> range_py 1 (n + 1) = []"
  by (simp add: range_py_def)

text \<open>
  The frame of a call whose step count is computed: its columns, its first row and the
  recurrence of the other rows.
\<close>

lemma euler_method_trace:
  assumes "py_truediv (float_sub x_target x0) h = Inr q" and "int_py q = Inr n"
  shows "\<exists>df. euler_method k x0 y0 x_target h = Inr df \<and>
           col_Step df = 0 # range_py 1 (n + 1) \<and>
           length (col_x df) = len_df df \<and> length (col_y df) = len_df df \<and>
           length (col_dy_dx df) = len_df df \<and> length (col_delta_y df) = len_df df \<and>
           col_x df ! 0 = x0 \<and> col_y df ! 0 = y0 \<and> col_dy_dx df ! 0 = float_mul k y0 \<and>
           col_delta_y df ! 0 = Fin 0 \<and>
           (\<forall>i. 0 < i \<and> i < len_df df \<longrightarrow>
              col_dy_dx df ! i = float_mul k (col_y df ! (i - 1)) \<and>
              col_delta_y df ! i = float_mul h (col_dy_dx df ! i) \<and>
              col_x df ! i = float_add (col_x df ! (i - 1)) h \<and>
              col_y df ! i = float_add (col_y df ! (i - 1)) (col_delta_y df ! i))"
proof -
  let ?js = "range_py 1 (n + 1)"
  let ?init = "([0], [x0], [y0], [float_mul k y0], [Fin 0], x0, y0)"
  obtain S X Y D E x y where
    L: "euler_loop k h ?js ?init = (S, X, Y, D, E, x, y)"
    using prod_cases7 by blast
  have R: "euler_method k x0 y0 x_target h =
          Inr \<lparr>col_Step = S, col_x = X, col_y = Y, col_dy_dx = D, col_delta_y = E\<rparr>"
    using assms L by (simp add: euler_method_def)
  from euler_loop_columns[OF L] obtain X2 Y2 D2 E2 where
    S: "S = [0] @ ?js" and "X = [x0] @ X2" "Y = [y0] @ Y2" "D = [float_mul k y0] @ D2"
    "E = [Fin 0] @ E2"
    by blast
  then have first: "X ! 0 = x0" "Y ! 0 = y0" "D ! 0 = float_mul k y0" "E ! 0 = Fin 0"
    by simp_all
  have "euler_inv k h (S, X, Y, D, E, x, y)"
    using euler_inv_loop[OF euler_inv_init, of k h ?js x0 y0] L by simp
  then have len: "length X = length S" "length Y = length S" "length D = length S"
      "length E = length S"
    and rec: "\<forall>i. 0 < i \<and> i < length S \<longrightarrow>
           D ! i = float_mul k (Y ! (i - 1)) \<and> E ! i = float_mul h (D ! i) \<and>
           X ! i = float_add (X ! (i - 1)) h \<and> Y ! i = float_add (Y ! (i - 1)) (E ! i)"
    by (simp_all add: euler_inv_def)
  show ?thesis
    using R S len rec first by (simp add: len_df_def)
qed

text \<open>
  A valid call whose quotient is finite: Python's division does not raise and \<^verbatim>\<open>int\<close>
  gives the floor of the quotient.
\<close>

lemma n_steps_valid:
  assumes "float_lt x0 x_target" and "float_lt (Fin 0) h"
    and "float_div (float_sub x_target x0) h = Fin q"
  shows "py_truediv (float_sub x_target x0) h = Inr (Fin q)"
    and "int_py (Fin q) = Inr \<lfloor>q\<rfloor>" and "0 \<le> \<lfloor>q\<rfloor>"
proof -
  from quotient_nonneg[OF assms] have q: "0 \<le> q" .
  show "py_truediv (float_sub x_target x0) h = Inr (Fin q)"
    using assms(2,3) by (cases h) simp_all
  show "int_py (Fin q) = Inr \<lfloor>q\<rfloor>" using q by simp
  show "0 \<le> \<lfloor>q\<rfloor>" using q by simp
qed

text \<open>With \<open>k = 0\<close> the body stores a zero derivative and increment and leaves \<open>y\<close>.\<close>

lemma euler_loop_k0:
  "euler_loop (Fin 0) (Fin b) js (S, X, Y, D, E, x, Fin v) = (S', X', Y', D', E', x', y') \<Longrightarrow>
   fl_round v = Fin v \<Longrightarrow>
   set Y \<subseteq> {Fin v} \<Longrightarrow> set D \<subseteq> {Fin 0} \<Longrightarrow> set E \<subseteq> {Fin 0} \<Longrightarrow>
   set Y' \<subseteq> {Fin v} \<and> set D' \<subseteq> {Fin 0} \<and> set E' \<subseteq> {Fin 0}"
proof (induction js arbitrary: S X Y D E x)
  case Nil
  then show ?case by simp
next
  case (Cons i rest)
  from Cons.prems(1,2)
  have "euler_loop (Fin 0) (Fin b) rest
          (S @ [i], X @ [float_add x (Fin b)], Y @ [Fin v], D @ [Fin 0], E @ [Fin 0],
           float_add x (Fin b), Fin v) = (S', X', Y', D', E', x', y')"
    by (simp add: Let_def fl_round_zero)
  moreover note Cons.prems(2)
  moreover have "set (Y @ [Fin v]) \<subseteq> {Fin v}" "set (D @ [Fin 0]) \<subseteq> {Fin 0}"
    "set (E @ [Fin 0]) \<subseteq> {Fin 0}"
    using Cons.prems(3-5) by simp_all
  ultimately show ?case by (rule Cons.IH)
qed

lemma zero_or_nan_mul_right: "zero_or_nan d \<Longrightarrow> zero_or_nan (float_mul c d)"
  by (cases c) (auto simp: zero_or_nan_def fl_round_zero)

lemma zero_or_nan_mul_left: "zero_or_nan d \<Longrightarrow> zero_or_nan (float_mul d c)"
  by (cases c) (auto simp: zero_or_nan_def fl_round_zero)

lemma zero_or_nan_add: "zero_or_nan c \<Longrightarrow> zero_or_nan d \<Longrightarrow> zero_or_nan (float_add c d)"
  by (auto simp: zero_or_nan_def fl_round_zero)

lemma euler_loop_zero_or_nan:
  "euler_loop k h js (S, X, Y, D, E, x, y) = (S', X', Y', D', E', x', y') \<Longrightarrow>
   zero_or_nan y \<Longrightarrow> (\<forall>v\<in>set Y. zero_or_nan v) \<Longrightarrow> (\<forall>v\<in>set Y'. zero_or_nan v)"
proof (induction js arbitrary: S X Y D E x y)
  case Nil
  then show ?case by simp
next
  case (Cons i rest)
  let ?d = "float_mul k y"
  let ?e = "float_mul h ?d"
  let ?y = "float_add y ?e"
  have y': "zero_or_nan ?y"
    using Cons.prems(2) by (intro zero_or_nan_add zero_or_nan_mul_right)
  from Cons.prems(1)
  have "euler_loop k h rest
          (S @ [i], X @ [float_add x h], Y @ [?y], D @ [?d], E @ [?e], float_add x h, ?y)
        = (S', X', Y', D', E', x', y')"
    by (simp add: Let_def)
  moreover note y'
  moreover have "\<forall>v\<in>set (Y @ [?y]). zero_or_nan v"
    using Cons.prems(3) y' by simp
  ultimately show ?case by (rule Cons.IH)
qed

text \<open>A relative error computed from two values that are zero or NaN is NaN.\<close>

lemma relative_error_degenerate:
  assumes "zero_or_nan c" and "zero_or_nan d"
  shows "float_mul (float_abs (float_div (float_sub c d) d)) (Fin 100) = NaN"
  using assms by (auto simp: zero_or_nan_def float_sub_def fl_round_zero)

section \<open>The maximum of a Series\<close>

lemma float_le_refl: "\<not> is_nan v \<Longrightarrow> float_le v v"
  by (cases v) simp_all

lemma float_le_trans: "float_le a b \<Longrightarrow> float_le b c \<Longrightarrow> float_le a c"
  by (cases a; cases b; cases c) simp_all

lemma float_le_total: "\<not> is_nan a \<Longrightarrow> \<not> is_nan b \<Longrightarrow> float_le a b \<or> float_le b a"
  by (cases a; cases b) auto

lemma fold_max_greatest:
  assumes "\<not> is_nan v" and "\<forall>a\<in>set rest. \<not> is_nan a"
  shows "fold (\<lambda>a m. if float_le m a then a else m) rest v \<in> set (v # rest) \<and>
         (\<forall>a\<in>set (v # rest). float_le a (fold (\<lambda>a m. if float_le m a then a else m) rest v))"
  using assms
proof (induction rest arbitrary: v)
  case Nil
  then show ?case by (simp add: float_le_refl)
next
  case (Cons b rest)
  let ?f = "\<lambda>a m. if float_le m a then a else m"
  let ?v' = "if float_le v b then b else v"
  from Cons.prems have nb: "\<not> is_nan b" and nrest: "\<forall>a\<in>set rest. \<not> is_nan a" by simp_all
  have nv': "\<not> is_nan ?v'" using Cons.prems(1) nb by simp
  from Cons.IH[OF nv' nrest]
  have mem: "fold ?f rest ?v' \<in> set (?v' # rest)"
    and ge: "\<forall>a\<in>set (?v' # rest). float_le a (fold ?f rest ?v')"
    by simp_all
  from ge have gv': "float_le ?v' (fold ?f rest ?v')" by simp
  have "float_le v ?v'" "float_le b ?v'"
    using float_le_total[OF Cons.prems(1) nb] float_le_refl[OF Cons.prems(1)] float_le_refl[OF nb]
    by auto
  then have "float_le v (fold ?f rest ?v')" "float_le b (fold ?f rest ?v')"
    using gv' float_le_trans by blast+
  moreover have "fold ?f rest ?v' \<in> set (v # b # rest)"
    using mem by auto
  ultimately show ?case using ge by simp
qed

lemma series_max_skips_nan:
  "series_max vs = series_max (filter (\<lambda>v. \<not> is_nan v) vs)"
  by (simp add: series_max_def)

lemma series_max_all_nan:
  "(\<forall>v\<in>set vs. is_nan v) \<Longrightarrow> series_max vs = NaN"
proof -
  assume "\<forall>v\<in>set vs. is_nan v"
  then have "filter (\<lambda>v. \<not> is_nan v) vs = []"
    by (simp add: filter_empty_conv)
  then show ?thesis by (simp add: series_max_def)
qed

lemma series_max_greatest:
  assumes "v \<in> set vs" and "\<not> is_nan v"
  shows "\<not> is_nan (series_max vs) \<and> series_max vs \<in> set vs \<and> float_le v (series_max vs)"
proof -
  let ?f = "\<lambda>a m. if float_le m a then a else m"
  from assms have v: "v \<in> set (filter (\<lambda>v. \<not> is_nan v) vs)" by simp
  then obtain w rest where wr: "filter (\<lambda>v. \<not> is_nan v) vs = w # rest"
    by (cases "filter (\<lambda>v. \<not> is_nan v) vs") auto
  have "set (w # rest) = {a \<in> set vs. \<not> is_nan a}"
    using wr by (metis set_filter)
  then have "\<forall>a\<in>set (w # rest). \<not> is_nan a"
    by blast
  then have nw: "\<not> is_nan w" and nrest: "\<forall>a\<in>set rest. \<not> is_nan a" by simp_all
  from fold_max_greatest[OF nw nrest]
  have mem: "fold ?f rest w \<in> set (w # rest)"
    and ge: "\<forall>a\<in>set (w # rest). float_le a (fold ?f rest w)"
    by simp_all
  have sm: "series_max vs = fold ?f rest w"
    by (simp add: series_max_def wr)
  from mem wr have "fold ?f rest w \<in> set (filter (\<lambda>v. \<not> is_nan v) vs)" by simp
  then have in_vs: "fold ?f rest w \<in> set vs" and not_nan: "\<not> is_nan (fold ?f rest w)"
    by simp_all
  have "v \<in> set (w # rest)" using v wr by simp
  with ge have "float_le v (fold ?f rest w)" by blast
  with in_vs not_nan sm show ?thesis by simp
qed

section \<open>Underflow and overflow of rounding\<close>

lemma binade_lowest:
  "(\<And>m. lo < m \<Longrightarrow> m \<le> hi \<Longrightarrow> scale2 a (- m) < 1) \<Longrightarrow> binade lo hi a = lo"
proof (induction lo hi a rule: binade.induct)
  case (1 lo hi a)
  show ?case
  proof (cases "hi \<le> lo")
    case True
    then show ?thesis by (simp add: binade.simps)
  next
    case False
    let ?mid = "(lo + hi + 1) div 2"
    from False have mid: "lo < ?mid" "?mid \<le> hi" by simp_all
    then have no: "\<not> 1 \<le> scale2 a (- ?mid)" using "1.prems"[of ?mid] by simp
    have "binade lo (?mid - 1) a = lo"
    proof (rule "1.IH"(2)[OF False no])
      fix m assume "lo < m" "m \<le> ?mid - 1"
      then show "scale2 a (- m) < 1" using "1.prems"[of m] mid by simp
    qed
    then show ?thesis using False no by (subst binade.simps) simp
  qed
qed

lemma binade_highest:
  "(\<And>m. lo < m \<Longrightarrow> m \<le> hi \<Longrightarrow> 1 \<le> scale2 a (- m)) \<Longrightarrow> lo \<le> hi \<Longrightarrow>
   binade lo hi a = hi"
proof (induction lo hi a rule: binade.induct)
  case (1 lo hi a)
  show ?case
  proof (cases "hi \<le> lo")
    case True
    then show ?thesis using "1.prems"(2) by (simp add: binade.simps)
  next
    case False
    let ?mid = "(lo + hi + 1) div 2"
    from False have mid: "lo < ?mid" "?mid \<le> hi" by simp_all
    then have yes: "1 \<le> scale2 a (- ?mid)" using "1.prems"(1)[of ?mid] by simp
    have "binade ?mid hi a = hi"
    proof (rule "1.IH"(1)[OF False yes])
      fix m assume "?mid < m" "m \<le> hi"
      then show "1 \<le> scale2 a (- m)" using "1.prems"(1)[of m] mid by simp
    qed (use mid in simp)
    then show ?thesis using False yes by (subst binade.simps) simp
  qed
qed

lemma round_magnitude_tiny:
  assumes "0 \<le> a" and "a * 2 ^ 1074 < 1 / 2"
  shows "round_magnitude a = Fin 0"
proof -
  have small: "scale2 a (- m) < 1" if "- 1022 < m" for m
  proof (cases "0 \<le> - m")
    case True
    then have "nat (- m) \<le> 1074" using that by simp
    then have "(2::real) ^ nat (- m) \<le> 2 ^ 1074" by (intro power_increasing) simp_all
    then have "a * 2 ^ nat (- m) \<le> a * 2 ^ 1074"
      using assms(1) by (intro mult_left_mono)
    then show ?thesis using True assms(2) by (simp add: scale2_def)
  next
    case False
    have "(1::real) \<le> 2 ^ nat m" by simp
    then have "a * 1 \<le> a * 2 ^ nat m"
      using assms(1) by (intro mult_left_mono)
    then have "a / 2 ^ nat m \<le> a"
      by (simp add: divide_le_eq)
    moreover have "a * 1 \<le> a * 2 ^ 1074" using assms(1) by (intro mult_left_mono) simp_all
    ultimately have "a / 2 ^ nat m < 1" using assms(2) by linarith
    moreover have "scale2 a (- m) = a / 2 ^ nat m" using False by (simp add: scale2_def)
    ultimately show ?thesis by simp
  qed
  have e: "binade (- 1022) 1023 a = - 1022"
    by (rule binade_lowest) (use small in simp)
  have m: "scale2 a (52 - (- 1022)) = a * 2 ^ 1074" by (simp add: scale2_def)
  have "0 \<le> a * 2 ^ 1074" using assms(1) by simp
  with assms(2) have "\<lfloor>a * 2 ^ 1074\<rfloor> = 0" by (simp add: floor_eq_iff)
  then have "round_half_even (a * 2 ^ 1074) = 0"
    using assms(2) by (simp add: round_half_even_def nearest_even_def)
  then show ?thesis
    by (simp add: round_magnitude_def round_in_binade_def e m overflow_check_def scale2_def)
qed

lemma nearest_even_ge: "f \<le> nearest_even m f"
  by (simp add: nearest_even_def)

lemma round_magnitude_huge:
  assumes "2 ^ 1024 \<le> a"
  shows "round_magnitude a = PosInf"
proof -
  have a1: "1 \<le> a" using assms by (rule order_trans[rotated]) simp
  have big: "1 \<le> scale2 a (- m)" if "m \<le> 1023" for m
  proof (cases "0 \<le> - m")
    case True
    have "(1::real) \<le> 2 ^ nat (- m)" by simp
    then have "1 * 1 \<le> a * 2 ^ nat (- m)" using a1 by (intro mult_mono) simp_all
    then show ?thesis using True by (simp add: scale2_def)
  next
    case False
    then have "nat m \<le> 1024" using that by simp
    then have "(2::real) ^ nat m \<le> 2 ^ 1024" by (intro power_increasing) simp_all
    with assms have "2 ^ nat m \<le> a" by simp
    then show ?thesis using False by (simp add: scale2_def)
  qed
  have e: "binade (- 1022) 1023 a = 1023"
    by (rule binade_highest) (use big in simp_all)
  have m: "scale2 a (52 - 1023) = a / 2 ^ 971" by (simp add: scale2_def)
  have "(2::real) ^ 53 * 2 ^ 971 \<le> a" using assms by (simp flip: power_add)
  then have "2 ^ 53 \<le> a / 2 ^ 971" by (simp add: le_divide_eq)
  then have "(2::int) ^ 53 \<le> \<lfloor>a / 2 ^ 971\<rfloor>" by (simp add: le_floor_iff)
  also have "\<dots> \<le> round_half_even (a / 2 ^ 971)"
    unfolding round_half_even_def by (rule nearest_even_ge)
  finally have "(2::real) ^ 53 \<le> of_int (round_half_even (a / 2 ^ 971))"
    by (metis of_int_le_iff of_int_numeral of_int_power)
  then have "2 ^ 53 * 2 ^ 971 \<le> of_int (round_half_even (a / 2 ^ 971)) * (2::real) ^ 971"
    by (intro mult_right_mono) simp_all
  then have "2 ^ 1024 \<le> of_int (round_half_even (a / 2 ^ 971)) * (2::real) ^ 971"
    by (simp flip: power_add)
  then show ?thesis
    by (simp add: round_magnitude_def round_in_binade_def e m overflow_check_def scale2_def)
qed

section \<open>The exponential far from zero\<close>

lemma exp_one_ge: "9 / 4 \<le> exp (1::real)"
proof -
  have "1 + 1 / 2 \<le> exp (1 / 2 :: real)" by (rule exp_ge_add_one_self)
  then have "(3 / 2) * (3 / 2) \<le> exp (1 / 2 :: real) * exp (1 / 2)"
    by (intro mult_mono) simp_all
  then show ?thesis by (simp flip: exp_add)
qed

lemma exp_1000_ge: "2 ^ 1076 \<le> exp (1000::real)"
proof -
  have "(2::real) ^ 27 \<le> (9 / 4) ^ 25" by (simp add: power_divide)
  then have "((2::real) ^ 27) ^ 40 \<le> ((9 / 4) ^ 25) ^ 40"
    by (intro power_mono) simp_all
  then have "(2::real) ^ 1080 \<le> (9 / 4) ^ 1000"
    by (simp flip: power_mult)
  moreover have "(2::real) ^ 1076 \<le> 2 ^ 1080" by (intro power_increasing) simp_all
  moreover have "(9 / 4) ^ 1000 \<le> exp (1::real) ^ 1000"
    using exp_one_ge by (intro power_mono) simp_all
  moreover have "exp (1::real) ^ 1000 = exp 1000"
    using exp_of_nat_mult[of 1000 "1::real"] by simp
  ultimately show ?thesis by linarith
qed

lemma float_exp_overflow: "float_exp (Fin 1000) = PosInf"
proof -
  have "(2::real) ^ 1024 \<le> 2 ^ 1076" by (intro power_increasing) simp_all
  with exp_1000_ge have "2 ^ 1024 \<le> exp (1000::real)" by linarith
  then have "round_magnitude (exp 1000) = PosInf" by (rule round_magnitude_huge)
  then show ?thesis by (simp add: fl_round_def not_less[symmetric] del: not_less)
qed

lemma float_exp_underflow: "float_exp (Fin (- 1000)) = Fin 0"
proof -
  have "exp (- 1000 :: real) = inverse (exp 1000)" by (rule exp_minus)
  also have "\<dots> \<le> inverse (2 ^ 1076)"
    using exp_1000_ge by (intro le_imp_inverse_le) simp_all
  finally have "exp (- 1000 :: real) * 2 ^ 1074 \<le> inverse (2 ^ 1076) * 2 ^ 1074"
    by (intro mult_right_mono) simp_all
  also have "inverse ((2::real) ^ 1076) * 2 ^ 1074 = 1 / 4"
    by (simp add: field_simps)
  finally have "exp (- 1000 :: real) * 2 ^ 1074 < 1 / 2" by simp
  with exp_ge_zero[of "- 1000 :: real"] have "round_magnitude (exp (- 1000)) = Fin 0"
    by (rule round_magnitude_tiny)
  then show ?thesis by (simp add: fl_round_def not_less[symmetric] del: not_less)
qed

lemma float_exp_zero: "float_exp (Fin 0) = Fin 1"
  by (simp add: float_eval)

section \<open>Traces and values computed step by step\<close>

text \<open>
  Concrete inputs evaluated with the definitions above, used below as examples. A float
  is written as the fraction it is: \<^verbatim>\<open>0.1\<close> is \<open>3602879701896397 / 2 ^ 55\<close>.
\<close>

lemmas trace_eval = euler_method_def range_py_def upto.simps Let_def float_eval

lemma float_literals:
  "float_of (1 / 10) = Fin (3602879701896397 / 36028797018963968)"
  "float_of (3 / 10) = Fin (5404319552844595 / 18014398509481984)"
  "float_of (1 / 100) = Fin (5764607523034235 / 576460752303423488)"
  "float_of (101 / 100) = Fin (4548635623644201 / 4503599627370496)"
  "float_of (- 1 / 2) = Fin (- 1 / 2)"
  "float_of (1 / 4) = Fin (1 / 4)"
  by (simp_all add: float_eval)

lemma finite_double_examples:
  "is_finite_double (Fin 0)" "is_finite_double (Fin 5)" "is_finite_double (Fin (1 / 2 ^ 1074))"
  by (simp_all add: float_eval)

lemma quotient_examples:
  "float_div (float_sub (Fin 1) (Fin 0)) (Fin (1 / 2)) = Fin 2"
  "float_div (float_sub (Fin 0) (Fin 1)) (Fin (1 / 2)) = Fin (- 2)"
  "float_div (float_sub (Fin 1) (Fin 0)) (Fin 1) = Fin 1"
  "float_div (float_sub (Fin 2) (Fin 0)) (float_of (1 / 10)) = Fin 20"
  "float_div (float_sub (float_of (3 / 10)) (Fin 0)) (float_of (1 / 10)) =
     Fin (6755399441055743 / 2251799813685248)"
  by (simp_all add: float_eval)

lemma overflowing_quotients:
  "float_div (float_sub (Fin 1) (Fin 0)) (Fin (1 / 2 ^ 1074)) = PosInf"
  "float_div (float_sub (Fin 0) (Fin 1)) (Fin (1 / 2 ^ 1074)) = NegInf"
  by (simp_all add: float_eval)

lemma overflow_examples:
  "euler_method (Fin 1) (Fin 0) (Fin 1) (Fin 1) (Fin (1 / 2 ^ 1074)) = Inl OverflowError"
  "euler_method (Fin 1) (Fin 1) (Fin 1) (Fin 0) (Fin (1 / 2 ^ 1074)) = Inl OverflowError"
  by (simp_all add: trace_eval)

lemma recomputed_x_example:
  "float_add (Fin 0) (float_mul (Fin 20) (float_of (1 / 10))) = Fin 2"
  by (simp add: float_eval)

lemma scenario_growth_trace:
  "euler_method (float_of (1 / 10)) (Fin 0) (Fin 1) (Fin 2) (float_of (1 / 10)) =
     Inr \<lparr>col_Step = [0, 1, 2, 3, 4, 5, 6, 7, 8, 9, 10, 11, 12, 13, 14, 15, 16, 17,
       18, 19, 20], col_x = [Fin 0, Fin (3602879701896397 / 36028797018963968),
       Fin (3602879701896397 / 18014398509481984),
       Fin (1351079888211149 / 4503599627370496),
       Fin (3602879701896397 / 9007199254740992), Fin (1 / 2),
       Fin (5404319552844595 / 9007199254740992),
       Fin (3152519739159347 / 4503599627370496),
       Fin (7205759403792793 / 9007199254740992),
       Fin (2026619832316723 / 2251799813685248),
       Fin (9007199254740991 / 9007199254740992),
       Fin (4953959590107545 / 4503599627370496),
       Fin (5404319552844595 / 4503599627370496),
       Fin (5854679515581645 / 4503599627370496),
       Fin (6305039478318695 / 4503599627370496),
       Fin (6755399441055745 / 4503599627370496),
       Fin (7205759403792795 / 4503599627370496),
       Fin (7656119366529845 / 4503599627370496),
       Fin (8106479329266895 / 4503599627370496),
       Fin (8556839292003945 / 4503599627370496),
       Fin (4503599627370497 / 2251799813685248)], col_y = [Fin 1,
       Fin (4548635623644201 / 4503599627370496),
       Fin (4594121979880643 / 4503599627370496),
       Fin (4640063199679449 / 4503599627370496),
       Fin (1171615957919061 / 1125899906842624),
       Fin (2366664234996503 / 2251799813685248), Fin (597582719336617 / 562949953421312),
       Fin (4828468372239865 / 4503599627370496), Fin (609594131995283 / 562949953421312),
       Fin (4925520586521887 / 4503599627370496),
       Fin (2487387896193553 / 2251799813685248),
       Fin (5024523550310977 / 4503599627370496),
       Fin (5074768785814087 / 4503599627370496),
       Fin (1281379118418057 / 1125899906842624),
       Fin (2588385819204475 / 2251799813685248), Fin (326783709674565 / 281474976710656),
       Fin (2640412374170485 / 2251799813685248),
       Fin (1333408248956095 / 1125899906842624), Fin (168342791430707 / 140737488355328),
       Fin (2720419509520225 / 2251799813685248),
       Fin (2747623704615427 / 2251799813685248)],
       col_dy_dx = [Fin (3602879701896397 / 36028797018963968),
       Fin (3602879701896397 / 36028797018963968),
       Fin (3638908498915361 / 36028797018963968),
       Fin (7350595167809029 / 72057594037927936),
       Fin (7424101119487119 / 72057594037927936),
       Fin (7498342130681991 / 72057594037927936),
       Fin (3786662775994405 / 36028797018963968),
       Fin (3824529403754349 / 36028797018963968),
       Fin (965693674447973 / 9007199254740992),
       Fin (7802804889539623 / 72057594037927936),
       Fin (1970208234608755 / 18014398509481984),
       Fin (3979820633909685 / 36028797018963968),
       Fin (2009809420124391 / 18014398509481984),
       Fin (2029907514325635 / 18014398509481984),
       Fin (8200826357875565 / 72057594037927936),
       Fin (517677163840895 / 4503599627370496), Fin (65356741934913 / 562949953421312),
       Fin (528082474834097 / 4503599627370496), Fin (266681649791219 / 2251799813685248),
       Fin (8619150921252199 / 72057594037927936),
       Fin (544083901904045 / 4503599627370496)], col_delta_y = [Fin 0,
       Fin (1441151880758559 / 144115188075855872),
       Fin (2911126799132289 / 288230376151711744),
       Fin (735059516780903 / 72057594037927936), Fin (92801263993589 / 9007199254740992),
       Fin (5998673704545593 / 576460752303423488),
       Fin (757332555198881 / 72057594037927936),
       Fin (6119247046006959 / 576460752303423488),
       Fin (1545109879116757 / 144115188075855872),
       Fin (6242243911631699 / 576460752303423488),
       Fin (394041646921751 / 36028797018963968),
       Fin (795964126781937 / 72057594037927936),
       Fin (1607847536099513 / 144115188075855872),
       Fin (405981502865127 / 36028797018963968),
       Fin (1640165271575113 / 144115188075855872),
       Fin (103535432768179 / 9007199254740992),
       Fin (1673132593533773 / 144115188075855872),
       Fin (3379727838938221 / 288230376151711744),
       Fin (6827050234655207 / 576460752303423488),
       Fin (215478773031305 / 18014398509481984),
       Fin (108816780380809 / 9007199254740992)]\<rparr>"
  by (simp add: trace_eval)

lemma scenario_decay_trace:
  "euler_method (float_of (- 1 / 2)) (Fin 0) (Fin 10) (Fin 1) (float_of (1 / 4)) =
     Inr \<lparr>col_Step = [0, 1, 2, 3, 4], col_x = [Fin 0, Fin (1 / 4), Fin (1 / 2),
       Fin (3 / 4), Fin 1], col_y = [Fin 10, Fin (35 / 4), Fin (245 / 32),
       Fin (1715 / 256), Fin (12005 / 2048)], col_dy_dx = [Fin (- 5), Fin (- 5),
       Fin (- (35 / 8)), Fin (- (245 / 64)), Fin (- (1715 / 512))], col_delta_y = [Fin 0,
       Fin (- (5 / 4)), Fin (- (35 / 32)), Fin (- (245 / 256)),
       Fin (- (1715 / 2048))]\<rparr>"
  by (simp add: trace_eval)

lemma two_steps_example:
  "euler_method (Fin 1) (Fin 0) (Fin 1) (Fin 1) (Fin (1 / 2)) =
     Inr \<lparr>col_Step = [0, 1, 2], col_x = [Fin 0, Fin (1 / 2), Fin 1], col_y = [Fin 1,
       Fin (3 / 2), Fin (9 / 4)], col_dy_dx = [Fin 1, Fin 1, Fin (3 / 2)],
       col_delta_y = [Fin 0, Fin (1 / 2), Fin (3 / 4)]\<rparr>"
  by (simp add: trace_eval)

lemma backwards_example:
  "euler_method (Fin 1) (Fin 1) (Fin 1) (Fin 0) (Fin (- 1 / 2)) =
     Inr \<lparr>col_Step = [0, 1, 2], col_x = [Fin 1, Fin (1 / 2), Fin 0], col_y = [Fin 1,
       Fin (1 / 2), Fin (1 / 4)], col_dy_dx = [Fin 1, Fin 1, Fin (1 / 2)],
       col_delta_y = [Fin 0, Fin (- (1 / 2)), Fin (- (1 / 4))]\<rparr>"
  by (simp add: trace_eval)

lemma constant_example:
  "euler_method (Fin 0) (Fin 0) (Fin 5) (Fin 1) (Fin (1 / 2)) =
     Inr \<lparr>col_Step = [0, 1, 2], col_x = [Fin 0, Fin (1 / 2), Fin 1], col_y = [Fin 5,
       Fin 5, Fin 5], col_dy_dx = [Fin 0, Fin 0, Fin 0], col_delta_y = [Fin 0, Fin 0,
       Fin 0]\<rparr>"
  by (simp add: trace_eval)

lemma underflow_trace:
  "euler_method (Fin (- 1000)) (Fin 0) (Fin 1) (Fin 1) (Fin 1) =
     Inr \<lparr>col_Step = [0, 1], col_x = [Fin 0, Fin 1], col_y = [Fin 1, Fin (- 999)],
       col_dy_dx = [Fin (- 1000), Fin (- 1000)], col_delta_y = [Fin 0,
       Fin (- 1000)]\<rparr>"
  by (simp add: trace_eval)

lemma overflow_trace:
  "euler_method (Fin 1000) (Fin 0) (Fin 1) (Fin 1) (Fin 1) =
     Inr \<lparr>col_Step = [0, 1], col_x = [Fin 0, Fin 1], col_y = [Fin 1, Fin 1001],
       col_dy_dx = [Fin 1000, Fin 1000], col_delta_y = [Fin 0, Fin 1000]\<rparr>"
  by (simp add: trace_eval)

lemma zero_trace:
  "euler_method (Fin 0) (Fin 0) (Fin 0) (Fin 1) (Fin (1 / 2)) =
     Inr \<lparr>col_Step = [0, 1, 2], col_x = [Fin 0, Fin (1 / 2), Fin 1], col_y = [Fin 0,
       Fin 0, Fin 0], col_dy_dx = [Fin 0, Fin 0, Fin 0], col_delta_y = [Fin 0, Fin 0,
       Fin 0]\<rparr>"
  by (simp add: trace_eval)

lemma no_step_example:
  "euler_method (Fin 3) (Fin 1) (Fin 2) (Fin 0) (Fin (1 / 2)) =
     Inr \<lparr>col_Step = [0], col_x = [Fin 1], col_y = [Fin 2], col_dy_dx = [Fin 6],
       col_delta_y = [Fin 0]\<rparr>"
  by (simp add: trace_eval)


section \<open>The error analysis\<close>

lemma euler_method_Inr_cases:
  assumes "euler_method k x0 y0 x_target h = Inr df"
  shows "\<exists>q n. py_truediv (float_sub x_target x0) h = Inr q \<and> int_py q = Inr n"
  using assms by (auto simp: euler_method_def split: sum.splits)

lemma euler_method_loop:
  assumes "py_truediv (float_sub x_target x0) h = Inr q" and "int_py q = Inr n"
  shows "\<exists>S X Y D E x y.
           euler_loop k h (range_py 1 (n + 1))
             ([0], [x0], [y0], [float_mul k y0], [Fin 0], x0, y0) = (S, X, Y, D, E, x, y) \<and>
           euler_method k x0 y0 x_target h =
             Inr \<lparr>col_Step = S, col_x = X, col_y = Y, col_dy_dx = D, col_delta_y = E\<rparr>"
proof -
  obtain S X Y D E x y where
    "euler_loop k h (range_py 1 (n + 1))
       ([0], [x0], [y0], [float_mul k y0], [Fin 0], x0, y0) = (S, X, Y, D, E, x, y)"
    using prod_cases7 by blast
  then show ?thesis using assms by (simp add: euler_method_def)
qed

text \<open>From \<open>y0 = 0\<close> every stored \<open>y\<close> is zero or NaN.\<close>

lemma euler_method_y0_zero:
  assumes "euler_method k x0 (Fin 0) x_target h = Inr df"
  shows "\<forall>v\<in>set (col_y df). zero_or_nan v"
proof -
  from euler_method_Inr_cases[OF assms] obtain q n where
    qn: "py_truediv (float_sub x_target x0) h = Inr q" "int_py q = Inr n" by blast
  from euler_method_loop[OF qn, of k "Fin 0"] assms
  obtain S X Y D E x y where
    L: "euler_loop k h (range_py 1 (n + 1))
          ([0], [x0], [Fin 0], [float_mul k (Fin 0)], [Fin 0], x0, Fin 0) = (S, X, Y, D, E, x, y)"
    and Y: "col_y df = Y"
    by auto
  have "\<forall>v\<in>set Y. zero_or_nan v"
    by (rule euler_loop_zero_or_nan[OF L]) (simp_all add: zero_or_nan_def)
  then show ?thesis by (simp add: Y)
qed

lemma euler_method_lengths:
  assumes "euler_method k x0 y0 x_target h = Inr df"
  shows "length (col_x df) = len_df df" and "length (col_y df) = len_df df"
proof -
  from euler_method_Inr_cases[OF assms] obtain q n where
    qn: "py_truediv (float_sub x_target x0) h = Inr q" "int_py q = Inr n" by blast
  from euler_method_trace[OF qn, of k y0] assms
  show "length (col_x df) = len_df df" and "length (col_y df) = len_df df" by auto
qed

lemma error_analysis_fields:
  "y_analytical_points (error_analysis k x0 y0 df) = analytical_solution k x0 y0 (col_x df)"
  "relative_errors (error_analysis k x0 y0 df) =
     series_times_scalar
       (np_abs (series_divide
          (series_minus (col_y df) (analytical_solution k x0 y0 (col_x df)))
          (analytical_solution k x0 y0 (col_x df))))
       (Fin 100)"
  "max_rel_error (error_analysis k x0 y0 df) =
     series_max (relative_errors (error_analysis k x0 y0 df))"
  by (simp_all add: error_analysis_def Let_def)

lemma analytical_solution_nth:
  "i < length xs \<Longrightarrow>
   analytical_solution k x0 y0 xs ! i =
     float_mul y0 (float_exp (float_mul k (float_sub (xs ! i) x0)))"
  by (simp add: analytical_solution_def scalar_times_array_def np_exp_def
      array_minus_scalar_def)

lemma length_analytical_solution:
  "length (analytical_solution k x0 y0 xs) = length xs"
  by (simp add: analytical_solution_def scalar_times_array_def np_exp_def
      array_minus_scalar_def)

lemma relative_errors_nth:
  assumes "length (col_x df) = len_df df" "length (col_y df) = len_df df"
  shows "length (relative_errors (error_analysis k x0 y0 df)) = len_df df"
    and "i < len_df df \<Longrightarrow> relative_errors (error_analysis k x0 y0 df) ! i =
      float_mul (float_abs (float_div
        (float_sub (col_y df ! i) (analytical_solution k x0 y0 (col_x df) ! i))
        (analytical_solution k x0 y0 (col_x df) ! i))) (Fin 100)"
proof -
  have la: "length (analytical_solution k x0 y0 (col_x df)) = len_df df"
    using assms(1) by (simp add: length_analytical_solution)
  show "length (relative_errors (error_analysis k x0 y0 df)) = len_df df"
    using la assms(2)
    by (simp add: error_analysis_fields(2) series_divide_def series_minus_def
        series_times_scalar_def np_abs_def)
  show "relative_errors (error_analysis k x0 y0 df) ! i =
      float_mul (float_abs (float_div
        (float_sub (col_y df ! i) (analytical_solution k x0 y0 (col_x df) ! i))
        (analytical_solution k x0 y0 (col_x df) ! i))) (Fin 100)" if "i < len_df df"
    using la assms(2) that
    by (simp add: error_analysis_fields(2) series_divide_def series_minus_def
        series_times_scalar_def np_abs_def)
qed

lemma main_Results:
  assumes "main k x0 y0 x_target h button = Results df rep"
  shows "euler_method k x0 y0 x_target h = Inr df" and "rep = error_analysis k x0 y0 df"
  using assms by (auto simp: main_def split: if_splits sum.splits)

lemmas report_eval = main_def error_analysis_def analytical_solution_def
  scalar_times_array_def np_exp_def array_minus_scalar_def np_abs_def series_minus_def
  series_divide_def series_times_scalar_def series_max_def Let_def

lemma underflow_report:
  "main (Fin (- 1000)) (Fin 0) (Fin 1) (Fin 1) (Fin 1) True =
     Results
       \<lparr>col_Step = [0, 1], col_x = [Fin 0, Fin 1], col_y = [Fin 1, Fin (- 999)],
          col_dy_dx = [Fin (- 1000), Fin (- 1000)], col_delta_y = [Fin 0, Fin (- 1000)]\<rparr>
       \<lparr>y_analytical_points = [Fin 1, Fin 0], absolute_errors = [Fin 0, Fin 999],
          relative_errors = [Fin 0, PosInf], max_abs_error = Fin 999,
          max_rel_error = PosInf\<rparr>"
  by (simp add: report_eval underflow_trace float_exp_zero float_exp_underflow float_eval
      del: float_exp.simps)

lemma overflow_report:
  "main (Fin 1000) (Fin 0) (Fin 1) (Fin 1) (Fin 1) True =
     Results
       \<lparr>col_Step = [0, 1], col_x = [Fin 0, Fin 1], col_y = [Fin 1, Fin 1001],
          col_dy_dx = [Fin 1000, Fin 1000], col_delta_y = [Fin 0, Fin 1000]\<rparr>
       \<lparr>y_analytical_points = [Fin 1, PosInf], absolute_errors = [Fin 0, PosInf],
          relative_errors = [Fin 0, NaN], max_abs_error = PosInf,
          max_rel_error = Fin 0\<rparr>"
  by (simp add: report_eval overflow_trace float_exp_zero float_exp_overflow float_eval
      del: float_exp.simps)

lemma zero_report:
  "main (Fin 0) (Fin 0) (Fin 0) (Fin 1) (Fin (1 / 2)) True =
     Results
       \<lparr>col_Step = [0, 1, 2], col_x = [Fin 0, Fin (1 / 2), Fin 1],
          col_y = [Fin 0, Fin 0, Fin 0], col_dy_dx = [Fin 0, Fin 0, Fin 0],
          col_delta_y = [Fin 0, Fin 0, Fin 0]\<rparr>
       \<lparr>y_analytical_points = [Fin 0, Fin 0, Fin 0], absolute_errors = [Fin 0, Fin 0, Fin 0],
          relative_errors = [NaN, NaN, NaN], max_abs_error = Fin 0,
          max_rel_error = NaN\<rparr>"
  by (simp add: report_eval zero_trace float_exp_zero float_eval del: float_exp.simps)


section \<open>The claims\<close>

text \<open>
  C1. The claim: for every input with \<open>x_target > x0\<close> and \<open>h > 0\<close> the stepper
  returns a trace of \<open>floor ((x_target - x0) / h) + 1\<close> records. It does not return
  when the quotient of line 21 overflows: at \<open>x0 = 0\<close>, \<open>x_target = 1\<close> and \<open>h\<close> the
  least positive float (\<^verbatim>\<open>5e-324\<close>) the quotient is infinite and \<^verbatim>\<open>int\<close> raises
  \<^verbatim>\<open>OverflowError\<close>.
\<close>

theorem overflowing_quotient_counterexample:
  "float_lt (Fin 0) (Fin 1) \<and> float_lt (Fin 0) (Fin (1 / 2 ^ 1074)) \<and>
   is_finite_double (Fin (1 / 2 ^ 1074)) \<and>
   float_div (float_sub (Fin 1) (Fin 0)) (Fin (1 / 2 ^ 1074)) = PosInf \<and>
   euler_method (Fin 1) (Fin 0) (Fin 1) (Fin 1) (Fin (1 / 2 ^ 1074)) = Inl OverflowError"
proof -
  have "float_lt (Fin 0) (Fin 1)" "float_lt (Fin 0) (Fin (1 / 2 ^ 1074))" by simp_all
  with finite_double_examples(3) overflowing_quotients(1) overflow_examples(1)
  show ?thesis by blast
qed

text \<open>
  C1, as the code has it: for every input with \<open>x_target > x0\<close> and \<open>h > 0\<close> whose
  quotient \<open>(x_target - x0) / h\<close>, computed in floating point, is a finite float
  \<open>q\<close>, the stepper returns a trace with exactly \<open>floor q + 1\<close> records (every
  column has that many entries), and record 0 is \<open>(0, x0, y0, k * y0, 0)\<close>.
\<close>

theorem trace_length_and_first_record:
  assumes "float_lt x0 x_target" and "float_lt (Fin 0) h"
    and "float_div (float_sub x_target x0) h = Fin q"
  shows "\<exists>df. euler_method k x0 y0 x_target h = Inr df \<and>
           len_df df = nat \<lfloor>q\<rfloor> + 1 \<and>
           length (col_x df) = len_df df \<and> length (col_y df) = len_df df \<and>
           length (col_dy_dx df) = len_df df \<and> length (col_delta_y df) = len_df df \<and>
           record_at df 0 = (0, x0, y0, float_mul k y0, Fin 0)"
proof -
  from euler_method_trace[OF n_steps_valid(1,2)[OF assms], of k y0]
  obtain df where df: "euler_method k x0 y0 x_target h = Inr df"
    "col_Step df = 0 # range_py 1 (\<lfloor>q\<rfloor> + 1)"
    "length (col_x df) = len_df df" "length (col_y df) = len_df df"
    "length (col_dy_dx df) = len_df df" "length (col_delta_y df) = len_df df"
    "col_x df ! 0 = x0" "col_y df ! 0 = y0" "col_dy_dx df ! 0 = float_mul k y0"
    "col_delta_y df ! 0 = Fin 0"
    by blast
  have "len_df df = nat \<lfloor>q\<rfloor> + 1"
    using df(2) by (simp add: len_df_def length_range_py)
  moreover have "record_at df 0 = (0, x0, y0, float_mul k y0, Fin 0)"
    using df by (simp add: record_at_def)
  ultimately show ?thesis using df by blast
qed

text \<open>
  At \<open>x0 = 0\<close>, \<open>x_target = 0.3\<close>, \<open>h = 0.1\<close> the quotient is the float
  \<^verbatim>\<open>2.9999999999999996\<close> and the trace has three records.
\<close>

theorem trace_length_and_first_record_witness:
  "float_lt (Fin 0) (float_of (3 / 10)) \<and> float_lt (Fin 0) (float_of (1 / 10)) \<and>
   float_div (float_sub (float_of (3 / 10)) (Fin 0)) (float_of (1 / 10)) =
     Fin (6755399441055743 / 2251799813685248) \<and>
   (\<exists>df. euler_method (Fin 1) (Fin 0) (Fin 1) (float_of (3 / 10)) (float_of (1 / 10)) = Inr df \<and>
      len_df df = nat \<lfloor>6755399441055743 / 2251799813685248 :: real\<rfloor> + 1 \<and>
      length (col_x df) = len_df df \<and> length (col_y df) = len_df df \<and>
      length (col_dy_dx df) = len_df df \<and> length (col_delta_y df) = len_df df \<and>
      record_at df 0 = (0, Fin 0, Fin 1, float_mul (Fin 1) (Fin 1), Fin 0)) \<and>
   nat \<lfloor>6755399441055743 / 2251799813685248 :: real\<rfloor> + 1 = 3"
proof -
  have a: "float_lt (Fin 0) (float_of (3 / 10))" and b: "float_lt (Fin 0) (float_of (1 / 10))"
    by (simp_all add: float_literals)
  note c = quotient_examples(5)
  have d: "nat \<lfloor>6755399441055743 / 2251799813685248 :: real\<rfloor> + 1 = 3" by simp
  from trace_length_and_first_record[OF a b c, of "Fin 1" "Fin 1"] a b c d
  show ?thesis by blast
qed

text \<open>
  C2. The claim: for every record \<open>i\<close> of the trace, also \<open>i > 0\<close>, the stored
  \<open>dy_dx\<close> is \<open>k\<close> times that record's own \<open>y\<close>. The loop stores the derivative
  it computed before it advanced \<open>y\<close>, so the claim fails at record 1 of the trace for
  \<open>k = 1\<close>, \<open>x0 = 0\<close>, \<open>y0 = 1\<close>, \<open>x_target = 1\<close>, \<open>h = 0.5\<close>: the stored
  derivative is 1, and \<open>k\<close> times the record's own \<open>y\<close> is 1.5.
\<close>

theorem derivative_of_own_y_counterexample:
  "float_lt (Fin 0) (Fin 1) \<and> float_lt (Fin 0) (Fin (1 / 2)) \<and>
   euler_method (Fin 1) (Fin 0) (Fin 1) (Fin 1) (Fin (1 / 2)) =
     Inr \<lparr>col_Step = [0, 1, 2], col_x = [Fin 0, Fin (1 / 2), Fin 1],
           col_y = [Fin 1, Fin (3 / 2), Fin (9 / 4)],
           col_dy_dx = [Fin 1, Fin 1, Fin (3 / 2)],
           col_delta_y = [Fin 0, Fin (1 / 2), Fin (3 / 4)]\<rparr> \<and>
   1 < len_df (projr (euler_method (Fin 1) (Fin 0) (Fin 1) (Fin 1) (Fin (1 / 2)))) \<and>
   col_dy_dx (projr (euler_method (Fin 1) (Fin 0) (Fin 1) (Fin 1) (Fin (1 / 2)))) ! 1 = Fin 1 \<and>
   float_mul (Fin 1)
     (col_y (projr (euler_method (Fin 1) (Fin 0) (Fin 1) (Fin 1) (Fin (1 / 2)))) ! 1) =
     Fin (3 / 2) \<and>
   col_dy_dx (projr (euler_method (Fin 1) (Fin 0) (Fin 1) (Fin 1) (Fin (1 / 2)))) ! 1 \<noteq>
     float_mul (Fin 1)
       (col_y (projr (euler_method (Fin 1) (Fin 0) (Fin 1) (Fin 1) (Fin (1 / 2)))) ! 1)"
  by (simp add: two_steps_example len_df_def float_eval)

text \<open>
  C2, as the code has it: for every valid input whose step count is computed, record 0
  stores \<open>k\<close> times its own \<open>y\<close>, and every record \<open>i > 0\<close> stores \<open>k\<close> times
  the \<open>y\<close> of record \<open>i - 1\<close>.
\<close>

theorem derivative_of_previous_y:
  assumes "float_lt x0 x_target" and "float_lt (Fin 0) h"
    and "float_div (float_sub x_target x0) h = Fin q"
  shows "\<exists>df. euler_method k x0 y0 x_target h = Inr df \<and>
           len_df df = nat \<lfloor>q\<rfloor> + 1 \<and>
           col_dy_dx df ! 0 = float_mul k (col_y df ! 0) \<and>
           (\<forall>i. 0 < i \<and> i < len_df df \<longrightarrow>
              col_dy_dx df ! i = float_mul k (col_y df ! (i - 1)))"
proof -
  from euler_method_trace[OF n_steps_valid(1,2)[OF assms], of k y0]
  obtain df where df: "euler_method k x0 y0 x_target h = Inr df"
    and St: "col_Step df = 0 # range_py 1 (\<lfloor>q\<rfloor> + 1)"
    and first: "col_y df ! 0 = y0" "col_dy_dx df ! 0 = float_mul k y0"
    and rec: "\<forall>i. 0 < i \<and> i < len_df df \<longrightarrow>
              col_dy_dx df ! i = float_mul k (col_y df ! (i - 1)) \<and>
              col_delta_y df ! i = float_mul h (col_dy_dx df ! i) \<and>
              col_x df ! i = float_add (col_x df ! (i - 1)) h \<and>
              col_y df ! i = float_add (col_y df ! (i - 1)) (col_delta_y df ! i)"
    by blast
  have "len_df df = nat \<lfloor>q\<rfloor> + 1"
    using St by (simp add: len_df_def length_range_py)
  moreover have "col_dy_dx df ! 0 = float_mul k (col_y df ! 0)"
    using first by simp
  ultimately show ?thesis using df rec by blast
qed

theorem derivative_of_previous_y_witness:
  "float_lt (Fin 0) (Fin 1) \<and> float_lt (Fin 0) (Fin (1 / 2)) \<and>
   float_div (float_sub (Fin 1) (Fin 0)) (Fin (1 / 2)) = Fin 2 \<and>
   (\<exists>df. euler_method (Fin 1) (Fin 0) (Fin 1) (Fin 1) (Fin (1 / 2)) = Inr df \<and>
      len_df df = nat \<lfloor>2 :: real\<rfloor> + 1 \<and>
      col_dy_dx df ! 0 = float_mul (Fin 1) (col_y df ! 0) \<and>
      (\<forall>i. 0 < i \<and> i < len_df df \<longrightarrow>
         col_dy_dx df ! i = float_mul (Fin 1) (col_y df ! (i - 1)))) \<and>
   euler_method (Fin 1) (Fin 0) (Fin 1) (Fin 1) (Fin (1 / 2)) =
     Inr \<lparr>col_Step = [0, 1, 2], col_x = [Fin 0, Fin (1 / 2), Fin 1],
           col_y = [Fin 1, Fin (3 / 2), Fin (9 / 4)],
           col_dy_dx = [Fin 1, Fin 1, Fin (3 / 2)],
           col_delta_y = [Fin 0, Fin (1 / 2), Fin (3 / 4)]\<rparr>"
proof -
  have a: "float_lt (Fin 0) (Fin 1)" and b: "float_lt (Fin 0) (Fin (1 / 2))" by simp_all
  note c = quotient_examples(1)
  from derivative_of_previous_y[OF a b c, of "Fin 1" "Fin 1"] a b c two_steps_example
  show ?thesis by blast
qed

text \<open>
  C3. The claim: the stepper, called with \<open>h \<le> 0\<close> or \<open>x_target \<le> x0\<close>, fails
  before any iteration and produces no trace. The stepper has no such check: at
  \<open>x0 = 1\<close>, \<open>x_target = 0\<close>, \<open>h = -0.5\<close> the step count is 2, the loop runs twice
  and a trace of three records is returned.
\<close>

theorem stepper_accepts_invalid_counterexample:
  "float_le (Fin (- 1 / 2)) (Fin 0) \<and> float_le (Fin 0) (Fin 1) \<and>
   euler_method (Fin 1) (Fin 1) (Fin 1) (Fin 0) (Fin (- 1 / 2)) =
     Inr \<lparr>col_Step = [0, 1, 2], col_x = [Fin 1, Fin (1 / 2), Fin 0],
           col_y = [Fin 1, Fin (1 / 2), Fin (1 / 4)],
           col_dy_dx = [Fin 1, Fin 1, Fin (1 / 2)],
           col_delta_y = [Fin 0, Fin (- (1 / 2)), Fin (- (1 / 4))]\<rparr>"
  using backwards_example by simp

text \<open>
  C3, as the code has it: the check is made by the caller. \<^verbatim>\<open>main\<close> reports an error
  and returns when \<open>x_target \<le> x0\<close> or \<open>h \<le> 0\<close>, whatever the button's state, so
  the stepper is not called, no iteration runs and no trace is produced.
\<close>

theorem main_rejects_invalid_parameters:
  assumes "float_le h (Fin 0) \<or> float_le x_target x0"
  shows "main k x0 y0 x_target h button =
           St_error (if float_le x_target x0
                     then ''Target x value must be greater than initial x value''
                     else ''Step size must be positive'')"
  using assms by (auto simp: main_def)

theorem main_rejects_invalid_parameters_witness:
  "(float_le (Fin (- 1 / 2)) (Fin 0) \<or> float_le (Fin 0) (Fin 1)) \<and>
   main (Fin 1) (Fin 1) (Fin 1) (Fin 0) (Fin (- 1 / 2)) True =
     St_error ''Target x value must be greater than initial x value'' \<and>
   (float_le (Fin 0) (Fin 0) \<or> float_le (Fin 1) (Fin 0)) \<and>
   main (Fin 1) (Fin 0) (Fin 1) (Fin 1) (Fin 0) True = St_error ''Step size must be positive''"
proof -
  have a: "float_le (Fin (- 1 / 2)) (Fin 0) \<or> float_le (Fin 0) (Fin 1)" by simp
  have b: "float_le (Fin 0) (Fin 0) \<or> float_le (Fin 1) (Fin 0)" by simp
  show ?thesis
    using main_rejects_invalid_parameters[OF a, of "Fin 1" "Fin 1" True]
      main_rejects_invalid_parameters[OF b, of "Fin 1" "Fin 1" True] by simp
qed

text \<open>
  C4. For every valid input whose step count \<open>n\<close> is computed, the trace has the
  records 0 to \<open>n\<close>, and every record \<open>i\<close> from 1 to \<open>n\<close> has step index \<open>i\<close>
  and satisfies the Euler recurrence, each operation a floating-point one: its \<open>dy_dx\<close>
  is \<open>k\<close> times the previous record's \<open>y\<close>, its \<open>delta_y\<close> is \<open>h\<close> times its
  \<open>dy_dx\<close>, its \<open>x\<close> is the previous \<open>x\<close> plus \<open>h\<close>, and its \<open>y\<close> is the
  previous \<open>y\<close> plus its \<open>delta_y\<close>. The accumulated \<open>x\<close> is not the recomputed
  \<open>x0 + i * h\<close>: there are traces where the two differ.
\<close>

theorem euler_recurrence:
  assumes "float_lt x0 x_target" and "float_lt (Fin 0) h"
    and "float_div (float_sub x_target x0) h = Fin q"
  shows "(\<exists>df. euler_method k x0 y0 x_target h = Inr df \<and>
            len_df df = nat \<lfloor>q\<rfloor> + 1 \<and>
            (\<forall>i. 0 < i \<and> i < len_df df \<longrightarrow>
               col_Step df ! i = int i \<and>
               col_dy_dx df ! i = float_mul k (col_y df ! (i - 1)) \<and>
               col_delta_y df ! i = float_mul h (col_dy_dx df ! i) \<and>
               col_x df ! i = float_add (col_x df ! (i - 1)) h \<and>
               col_y df ! i = float_add (col_y df ! (i - 1)) (col_delta_y df ! i))) \<and>
         (\<exists>k' a y' b h' df' i. euler_method k' a y' b h' = Inr df' \<and> i < len_df df' \<and>
            col_x df' ! i \<noteq> float_add a (float_mul (Fin (real i)) h'))"
proof -
  from euler_method_trace[OF n_steps_valid(1,2)[OF assms], of k y0]
  obtain df where df: "euler_method k x0 y0 x_target h = Inr df"
    and St: "col_Step df = 0 # range_py 1 (\<lfloor>q\<rfloor> + 1)"
    and rec: "\<forall>i. 0 < i \<and> i < len_df df \<longrightarrow>
              col_dy_dx df ! i = float_mul k (col_y df ! (i - 1)) \<and>
              col_delta_y df ! i = float_mul h (col_dy_dx df ! i) \<and>
              col_x df ! i = float_add (col_x df ! (i - 1)) h \<and>
              col_y df ! i = float_add (col_y df ! (i - 1)) (col_delta_y df ! i)"
    by blast
  have len: "len_df df = nat \<lfloor>q\<rfloor> + 1"
    using St by (simp add: len_df_def length_range_py)
  have "col_Step df ! i = int i" if i: "0 < i" "i < len_df df" for i
  proof -
    from i len have "i - 1 < nat \<lfloor>q\<rfloor>" by simp
    then have "range_py 1 (\<lfloor>q\<rfloor> + 1) ! (i - 1) = int (i - 1) + 1"
      by (rule range_py_nth)
    then show ?thesis using St i(1) by (simp add: nth_Cons')
  qed
  with df rec len have first: "\<exists>df. euler_method k x0 y0 x_target h = Inr df \<and>
            len_df df = nat \<lfloor>q\<rfloor> + 1 \<and>
            (\<forall>i. 0 < i \<and> i < len_df df \<longrightarrow>
               col_Step df ! i = int i \<and>
               col_dy_dx df ! i = float_mul k (col_y df ! (i - 1)) \<and>
               col_delta_y df ! i = float_mul h (col_dy_dx df ! i) \<and>
               col_x df ! i = float_add (col_x df ! (i - 1)) h \<and>
               col_y df ! i = float_add (col_y df ! (i - 1)) (col_delta_y df ! i))"
    by blast
  obtain g where g: "euler_method (float_of (1 / 10)) (Fin 0) (Fin 1) (Fin 2) (float_of (1 / 10)) = Inr g"
    and gx: "col_x g ! 20 = Fin (4503599627370497 / 2251799813685248)" and gl: "20 < len_df g"
    unfolding scenario_growth_trace by (simp add: len_df_def)
  have "float_add (Fin 0) (float_mul (Fin (real 20)) (float_of (1 / 10))) = Fin 2"
    using recomputed_x_example by simp
  with gx have "col_x g ! 20 \<noteq> float_add (Fin 0) (float_mul (Fin (real 20)) (float_of (1 / 10)))"
    by simp
  with g gl have "\<exists>k' a y' b h' df' i. euler_method k' a y' b h' = Inr df' \<and> i < len_df df' \<and>
            col_x df' ! i \<noteq> float_add a (float_mul (Fin (real i)) h')"
    by blast
  with first show ?thesis by blast
qed

text \<open>
  At \<open>k = 0.1\<close>, \<open>x0 = 0\<close>, \<open>y0 = 1\<close>, \<open>x_target = 2\<close>, \<open>h = 0.1\<close>:
  record 20 has the accumulated \<open>x = 2 + 2 ^ -51\<close> (\<^verbatim>\<open>2.0000000000000004\<close>), and
  \<open>x0 + 20 * h\<close> is 2.
\<close>

theorem euler_recurrence_witness:
  "float_lt (Fin 0) (Fin 2) \<and> float_lt (Fin 0) (float_of (1 / 10)) \<and>
   float_div (float_sub (Fin 2) (Fin 0)) (float_of (1 / 10)) = Fin 20 \<and>
   ((\<exists>df. euler_method (float_of (1 / 10)) (Fin 0) (Fin 1) (Fin 2) (float_of (1 / 10)) = Inr df \<and>
       len_df df = nat \<lfloor>20 :: real\<rfloor> + 1 \<and>
       (\<forall>i. 0 < i \<and> i < len_df df \<longrightarrow>
          col_Step df ! i = int i \<and>
          col_dy_dx df ! i = float_mul (float_of (1 / 10)) (col_y df ! (i - 1)) \<and>
          col_delta_y df ! i = float_mul (float_of (1 / 10)) (col_dy_dx df ! i) \<and>
          col_x df ! i = float_add (col_x df ! (i - 1)) (float_of (1 / 10)) \<and>
          col_y df ! i = float_add (col_y df ! (i - 1)) (col_delta_y df ! i))) \<and>
    (\<exists>k' a y' b h' df' i. euler_method k' a y' b h' = Inr df' \<and> i < len_df df' \<and>
       col_x df' ! i \<noteq> float_add a (float_mul (Fin (real i)) h'))) \<and>
   col_x (projr (euler_method (float_of (1 / 10)) (Fin 0) (Fin 1) (Fin 2) (float_of (1 / 10)))) ! 20 =
     Fin (4503599627370497 / 2251799813685248) \<and>
   float_add (Fin 0) (float_mul (Fin 20) (float_of (1 / 10))) = Fin 2"
proof -
  have a: "float_lt (Fin 0) (Fin 2)" and b: "float_lt (Fin 0) (float_of (1 / 10))"
    by (simp_all add: float_literals)
  note c = quotient_examples(4)
  have d: "col_x (projr (euler_method (float_of (1 / 10)) (Fin 0) (Fin 1) (Fin 2)
      (float_of (1 / 10)))) ! 20 = Fin (4503599627370497 / 2251799813685248)"
    unfolding scenario_growth_trace by simp
  from euler_recurrence[OF a b c, of "float_of (1 / 10)" "Fin 1"] a b c d recomputed_x_example
  show ?thesis by blast
qed



text \<open>
  C6. The claim: for \<open>k = 0.1\<close>, \<open>x0 = 0\<close>, \<open>y0 = 1\<close>, \<open>x_target = 2\<close>,
  \<open>h = 0.1\<close> record 1 is \<open>(1, 0.1, 1.01, 0.1, 0.01)\<close>. Its \<open>delta_y\<close> is
  \<open>0.1 * 0.1\<close> rounded, the float \<^verbatim>\<open>0.010000000000000002\<close>, which is not the float
  \<^verbatim>\<open>0.01\<close>.
\<close>

theorem delta_y_of_record_one_counterexample:
  "len_df (projr (euler_method (float_of (1 / 10)) (Fin 0) (Fin 1) (Fin 2) (float_of (1 / 10)))) = 21 \<and>
   col_delta_y (projr (euler_method (float_of (1 / 10)) (Fin 0) (Fin 1) (Fin 2)
     (float_of (1 / 10)))) ! 1 = Fin (1441151880758559 / 144115188075855872) \<and>
   float_of (1 / 100) = Fin (5764607523034235 / 576460752303423488) \<and>
   col_delta_y (projr (euler_method (float_of (1 / 10)) (Fin 0) (Fin 1) (Fin 2)
     (float_of (1 / 10)))) ! 1 \<noteq> float_of (1 / 100)"
  unfolding scenario_growth_trace by (simp add: len_df_def float_literals)

text \<open>
  C6, as the code has it: for that input the quotient of line 21 is the float 20, the
  stepper takes 20 steps and returns 21 records; record 1 is
  \<open>(1, 0.1, 1.01, 0.1, d)\<close> with \<open>d\<close> the float \<^verbatim>\<open>0.010000000000000002\<close>, within
  \<open>10 ^ -17\<close> of 0.01; and the final record is record 20, with
  \<open>x = 2 + 2 ^ -51\<close> (within \<open>10 ^ -15\<close> of 2) and \<open>y\<close> within \<open>0.0000005\<close> of
  \<open>1.220190\<close>.
\<close>

theorem scenario_growth:
  "\<exists>df. euler_method (float_of (1 / 10)) (Fin 0) (Fin 1) (Fin 2) (float_of (1 / 10)) = Inr df \<and>
      py_truediv (float_sub (Fin 2) (Fin 0)) (float_of (1 / 10)) = Inr (Fin 20) \<and>
      int_py (Fin 20) = Inr 20 \<and>
      len_df df = 21 \<and>
      record_at df 1 =
        (1, float_of (1 / 10), float_of (101 / 100), float_of (1 / 10),
         Fin (1441151880758559 / 144115188075855872)) \<and>
      \<bar>1441151880758559 / 144115188075855872 - 1 / 100 :: real\<bar> < 1 / 10 ^ 17 \<and>
      record_at df 20 =
        (20, Fin (4503599627370497 / 2251799813685248),
         Fin (2747623704615427 / 2251799813685248),
         Fin (544083901904045 / 4503599627370496),
         Fin (108816780380809 / 9007199254740992)) \<and>
      \<bar>4503599627370497 / 2251799813685248 - 2 :: real\<bar> < 1 / 10 ^ 15 \<and>
      \<bar>2747623704615427 / 2251799813685248 - 1220190 / 1000000 :: real\<bar> < 5 / 10 ^ 7"
proof -
  have q: "py_truediv (float_sub (Fin 2) (Fin 0)) (float_of (1 / 10)) = Inr (Fin 20)"
    using quotient_examples(4) by (simp add: float_literals)
  have n: "int_py (Fin 20) = Inr 20" by simp
  have b: "\<bar>1441151880758559 / 144115188075855872 - 1 / 100 :: real\<bar> < 1 / 10 ^ 17"
    "\<bar>4503599627370497 / 2251799813685248 - 2 :: real\<bar> < 1 / 10 ^ 15"
    "\<bar>2747623704615427 / 2251799813685248 - 1220190 / 1000000 :: real\<bar> < 5 / 10 ^ 7"
    by simp_all
  have "\<exists>df. euler_method (float_of (1 / 10)) (Fin 0) (Fin 1) (Fin 2) (float_of (1 / 10)) = Inr df \<and>
      len_df df = 21 \<and>
      record_at df 1 =
        (1, float_of (1 / 10), float_of (101 / 100), float_of (1 / 10),
         Fin (1441151880758559 / 144115188075855872)) \<and>
      record_at df 20 =
        (20, Fin (4503599627370497 / 2251799813685248),
         Fin (2747623704615427 / 2251799813685248),
         Fin (544083901904045 / 4503599627370496),
         Fin (108816780380809 / 9007199254740992))"
    unfolding scenario_growth_trace by (simp add: len_df_def record_at_def float_literals)
  with q n b show ?thesis by blast
qed

text \<open>
  C7. The claim: an analytical value of exactly zero at a trace point is possible only
  when \<open>y0 = 0\<close>, and the relative error there is NaN and left out of the maximum. At
  \<open>k = -1000\<close>, \<open>x0 = 0\<close>, \<open>y0 = 1\<close>, \<open>x_target = 1\<close>, \<open>h = 1\<close> the
  exponential underflows: the analytical value at \<open>x = 1\<close> is exactly 0, the relative
  error there is infinite, and the maximum relative error is that infinity.
\<close>

theorem underflow_relative_error_counterexample:
  "float_lt (Fin 0) (Fin 1) \<and> Fin 1 \<noteq> Fin 0 \<and>
   main (Fin (- 1000)) (Fin 0) (Fin 1) (Fin 1) (Fin 1) True =
     Results
       \<lparr>col_Step = [0, 1], col_x = [Fin 0, Fin 1], col_y = [Fin 1, Fin (- 999)],
          col_dy_dx = [Fin (- 1000), Fin (- 1000)], col_delta_y = [Fin 0, Fin (- 1000)]\<rparr>
       \<lparr>y_analytical_points = [Fin 1, Fin 0], absolute_errors = [Fin 0, Fin 999],
          relative_errors = [Fin 0, PosInf], max_abs_error = Fin 999,
          max_rel_error = PosInf\<rparr>"
  using underflow_report by simp

text \<open>
  C7, as the code has it: whenever \<^verbatim>\<open>main\<close> shows a report, the maximum relative
  error is \<^verbatim>\<open>Series.max()\<close> of the relative errors, which leaves the NaN entries out
  (it is not NaN and not below any entry that is not NaN, whenever there is one) and is NaN
  when every entry is NaN. When \<open>y0 = 0\<close>, the analytical value at every trace point is
  zero (or NaN), the relative error at every point is NaN, nothing is raised, and the
  maximum relative error is NaN.
\<close>

theorem degenerate_analytical_value:
  assumes "main k x0 y0 x_target h button = Results df rep"
  shows "max_rel_error rep = series_max (relative_errors rep) \<and>
         (\<forall>v. v \<in> set (relative_errors rep) \<and> \<not> is_nan v \<longrightarrow>
            \<not> is_nan (max_rel_error rep) \<and> float_le v (max_rel_error rep)) \<and>
         ((\<forall>v. v \<in> set (relative_errors rep) \<longrightarrow> is_nan v) \<longrightarrow> max_rel_error rep = NaN) \<and>
         (y0 = Fin 0 \<longrightarrow>
            length (relative_errors rep) = len_df df \<and>
            (\<forall>i. i < len_df df \<longrightarrow>
               zero_or_nan (y_analytical_points rep ! i) \<and> relative_errors rep ! i = NaN) \<and>
            max_rel_error rep = NaN)"
proof -
  note em = main_Results(1)[OF assms] and rep = main_Results(2)[OF assms]
  note len = euler_method_lengths[OF em]
  have mx: "max_rel_error rep = series_max (relative_errors rep)"
    by (simp add: rep error_analysis_fields(3))
  have great: "\<not> is_nan (max_rel_error rep) \<and> float_le v (max_rel_error rep)"
    if "v \<in> set (relative_errors rep) \<and> \<not> is_nan v" for v
    unfolding mx using series_max_greatest[of v "relative_errors rep"] that by blast
  have allnan: "max_rel_error rep = NaN" if "\<forall>v. v \<in> set (relative_errors rep) \<longrightarrow> is_nan v"
    unfolding mx using that by (intro series_max_all_nan) blast
  have lr: "length (relative_errors rep) = len_df df"
    unfolding rep by (rule relative_errors_nth(1)[OF len])
  have zero: "zero_or_nan (y_analytical_points rep ! i) \<and> relative_errors rep ! i = NaN"
    if y0: "y0 = Fin 0" and i: "i < len_df df" for i
  proof -
    let ?a = "analytical_solution k x0 y0 (col_x df) ! i"
    have "zero_or_nan (float_mul (Fin 0) c)" for c
      by (rule zero_or_nan_mul_left) (simp add: zero_or_nan_def)
    then have a: "zero_or_nan ?a"
      using i len(1) by (simp add: analytical_solution_nth y0)
    from em y0 have "\<forall>v\<in>set (col_y df). zero_or_nan v"
      using euler_method_y0_zero by blast
    moreover have "col_y df ! i \<in> set (col_y df)" using i len(2) by simp
    ultimately have y: "zero_or_nan (col_y df ! i)" by blast
    have "relative_errors rep ! i = NaN"
      unfolding rep relative_errors_nth(2)[OF len i]
      by (rule relative_error_degenerate[OF y a])
    with a show ?thesis by (simp add: rep error_analysis_fields(1))
  qed
  have zmax: "max_rel_error rep = NaN" if y0: "y0 = Fin 0"
  proof (rule allnan, intro allI impI)
    fix v assume "v \<in> set (relative_errors rep)"
    then obtain i where "i < length (relative_errors rep)" "relative_errors rep ! i = v"
      by (auto simp: in_set_conv_nth)
    with lr zero[OF y0] show "is_nan v" by auto
  qed
  from mx great allnan lr zero zmax show ?thesis by blast
qed

text \<open>
  At \<open>k = 0\<close>, \<open>y0 = 0\<close> all three points are degenerate. At \<open>k = 1000\<close>,
  \<open>y0 = 1\<close>, \<open>x_target = 1\<close>, \<open>h = 1\<close> the exponential overflows at \<open>x = 1\<close>,
  the relative errors are 0 and NaN, and the maximum is 0: the NaN is left out.
\<close>

theorem degenerate_analytical_value_witness:
  "main (Fin 0) (Fin 0) (Fin 0) (Fin 1) (Fin (1 / 2)) True =
     Results
       \<lparr>col_Step = [0, 1, 2], col_x = [Fin 0, Fin (1 / 2), Fin 1],
          col_y = [Fin 0, Fin 0, Fin 0], col_dy_dx = [Fin 0, Fin 0, Fin 0],
          col_delta_y = [Fin 0, Fin 0, Fin 0]\<rparr>
       \<lparr>y_analytical_points = [Fin 0, Fin 0, Fin 0], absolute_errors = [Fin 0, Fin 0, Fin 0],
          relative_errors = [NaN, NaN, NaN], max_abs_error = Fin 0,
          max_rel_error = NaN\<rparr> \<and>
   main (Fin 1000) (Fin 0) (Fin 1) (Fin 1) (Fin 1) True =
     Results
       \<lparr>col_Step = [0, 1], col_x = [Fin 0, Fin 1], col_y = [Fin 1, Fin 1001],
          col_dy_dx = [Fin 1000, Fin 1000], col_delta_y = [Fin 0, Fin 1000]\<rparr>
       \<lparr>y_analytical_points = [Fin 1, PosInf], absolute_errors = [Fin 0, PosInf],
          relative_errors = [Fin 0, NaN], max_abs_error = PosInf,
          max_rel_error = Fin 0\<rparr> \<and>
   series_max [NaN, NaN, NaN] = NaN \<and>
   series_max [Fin 0, NaN] = Fin 0 \<and> float_le (Fin 0) (series_max [Fin 0, NaN])"
proof -
  from degenerate_analytical_value[OF zero_report]
  have z: "series_max [NaN, NaN, NaN] = NaN" by simp
  from degenerate_analytical_value[OF overflow_report]
  have o: "series_max [Fin 0, NaN] = Fin 0" "float_le (Fin 0) (series_max [Fin 0, NaN])"
    by simp_all
  from zero_report overflow_report z o show ?thesis by blast
qed

text \<open>
  C8. For every input with \<open>k = 0\<close>, \<open>x_target > x0\<close> and \<open>h > 0\<close>, \<open>y0\<close> a
  finite float, whose step count is computed, every record of the trace has
  \<open>dy_dx = 0\<close>, \<open>delta_y = 0\<close> and \<open>y = y0\<close>.
\<close>

theorem constant_when_k_zero:
  assumes "is_finite_double y0"
    and "float_lt x0 x_target" and "float_lt (Fin 0) h"
    and "float_div (float_sub x_target x0) h = Fin q"
  shows "\<exists>df. euler_method (Fin 0) x0 y0 x_target h = Inr df \<and>
           (\<forall>i. i < len_df df \<longrightarrow>
              col_dy_dx df ! i = Fin 0 \<and> col_delta_y df ! i = Fin 0 \<and> col_y df ! i = y0)"
proof -
  from assms(1) obtain v where y0: "y0 = Fin v" and v: "fl_round v = Fin v"
    by (cases y0) simp_all
  have d0: "float_mul (Fin 0) y0 = Fin 0" by (simp add: y0 fl_round_zero)
  let ?js = "range_py 1 (\<lfloor>q\<rfloor> + 1)"
  let ?init = "([0], [x0], [y0], [Fin 0], [Fin 0], x0, y0)"
  obtain S X Y D E x y where L: "euler_loop (Fin 0) h ?js ?init = (S, X, Y, D, E, x, y)"
    using prod_cases7 by blast
  have R: "euler_method (Fin 0) x0 y0 x_target h =
          Inr \<lparr>col_Step = S, col_x = X, col_y = Y, col_dy_dx = D, col_delta_y = E\<rparr>"
    using n_steps_valid(1,2)[OF assms(2-4)] L by (simp add: euler_method_def d0)
  have "euler_inv (Fin 0) h (S, X, Y, D, E, x, y)"
    using euler_inv_loop[OF euler_inv_init, of "Fin 0" h ?js x0 y0] L by (simp add: d0)
  then have len: "length Y = length S" "length D = length S" "length E = length S"
    by (simp_all add: euler_inv_def)
  have sets: "set Y \<subseteq> {Fin v} \<and> set D \<subseteq> {Fin 0} \<and> set E \<subseteq> {Fin 0}"
  proof (cases h)
    case (Fin b)
    from L have "euler_loop (Fin 0) (Fin b) ?js ([0], [x0], [Fin v], [Fin 0], [Fin 0], x0, Fin v)
        = (S, X, Y, D, E, x, y)"
      by (simp add: Fin y0)
    from euler_loop_k0[OF this v] show ?thesis by simp
  next
    case PosInf
    have "q = 0"
      using assms(4) by (cases "float_sub x_target x0") (simp_all add: PosInf)
    then have "?js = []" by (simp add: range_py_def)
    with L show ?thesis by (auto simp: y0)
  qed (use assms(3) in simp_all)
  have "D ! i = Fin 0 \<and> E ! i = Fin 0 \<and> Y ! i = y0" if "i < length S" for i
  proof -
    from that len have "D ! i \<in> set D" "E ! i \<in> set E" "Y ! i \<in> set Y" by simp_all
    with sets show ?thesis unfolding y0 by blast
  qed
  then show ?thesis using R by (simp add: len_df_def)
qed

text \<open>
  At \<open>k = 0\<close>, \<open>x0 = 0\<close>, \<open>y0 = 5\<close>, \<open>x_target = 1\<close>, \<open>h = 0.5\<close>.
\<close>

theorem constant_when_k_zero_witness:
  "is_finite_double (Fin 5) \<and> float_lt (Fin 0) (Fin 1) \<and> float_lt (Fin 0) (Fin (1 / 2)) \<and>
   float_div (float_sub (Fin 1) (Fin 0)) (Fin (1 / 2)) = Fin 2 \<and>
   (\<exists>df. euler_method (Fin 0) (Fin 0) (Fin 5) (Fin 1) (Fin (1 / 2)) = Inr df \<and>
      (\<forall>i. i < len_df df \<longrightarrow>
         col_dy_dx df ! i = Fin 0 \<and> col_delta_y df ! i = Fin 0 \<and> col_y df ! i = Fin 5)) \<and>
   euler_method (Fin 0) (Fin 0) (Fin 5) (Fin 1) (Fin (1 / 2)) =
     Inr \<lparr>col_Step = [0, 1, 2], col_x = [Fin 0, Fin (1 / 2), Fin 1],
           col_y = [Fin 5, Fin 5, Fin 5], col_dy_dx = [Fin 0, Fin 0, Fin 0],
           col_delta_y = [Fin 0, Fin 0, Fin 0]\<rparr>"
proof -
  note y = finite_double_examples(2)
  have a: "float_lt (Fin 0) (Fin 1)" and b: "float_lt (Fin 0) (Fin (1 / 2))" by simp_all
  note c = quotient_examples(1)
  from constant_when_k_zero[OF y a b c] y a b c constant_example
  show ?thesis by blast
qed

text \<open>
  C9. For \<open>k = -0.5\<close>, \<open>x0 = 0\<close>, \<open>y0 = 10\<close>, \<open>x_target = 1\<close>, \<open>h = 0.25\<close> the
  trace has five records and its \<open>y\<close> values decrease strictly from each record to the
  next, over all four steps.
\<close>

theorem scenario_decay:
  "\<exists>df. euler_method (float_of (- 1 / 2)) (Fin 0) (Fin 10) (Fin 1) (float_of (1 / 4)) = Inr df \<and>
      len_df df = 5 \<and>
      col_y df = [Fin 10, Fin (35 / 4), Fin (245 / 32), Fin (1715 / 256), Fin (12005 / 2048)] \<and>
      float_lt (col_y df ! 1) (col_y df ! 0) \<and> float_lt (col_y df ! 2) (col_y df ! 1) \<and>
      float_lt (col_y df ! 3) (col_y df ! 2) \<and> float_lt (col_y df ! 4) (col_y df ! 3)"
  unfolding scenario_decay_trace by (simp add: len_df_def)

text \<open>
  C10. The claim: called with \<open>h > 0\<close> and \<open>x_target \<le> x0\<close>, the stepper does not
  raise. It raises when the quotient of line 21 overflows: at \<open>x0 = 1\<close>,
  \<open>x_target = 0\<close> and \<open>h\<close> the least positive float the quotient is minus infinity
  and \<^verbatim>\<open>int\<close> raises \<^verbatim>\<open>OverflowError\<close>.
\<close>

theorem overflowing_negative_quotient_counterexample:
  "float_lt (Fin 0) (Fin (1 / 2 ^ 1074)) \<and> float_le (Fin 0) (Fin 1) \<and>
   is_finite_double (Fin (1 / 2 ^ 1074)) \<and>
   float_div (float_sub (Fin 0) (Fin 1)) (Fin (1 / 2 ^ 1074)) = NegInf \<and>
   euler_method (Fin 1) (Fin 1) (Fin 1) (Fin 0) (Fin (1 / 2 ^ 1074)) = Inl OverflowError"
proof -
  have "float_lt (Fin 0) (Fin (1 / 2 ^ 1074))" "float_le (Fin 0) (Fin 1)" by simp_all
  with finite_double_examples(3) overflowing_quotients(2) overflow_examples(2)
  show ?thesis by blast
qed

text \<open>
  C10, as the code has it: called with \<open>h > 0\<close> and \<open>x_target \<le> x0\<close> and a finite
  quotient \<open>(x_target - x0) / h\<close>, the stepper does not raise: the step count is not
  positive, the loop body never runs, and the trace is the initial record
  \<open>(0, x0, y0, k * y0, 0)\<close> alone.
\<close>

theorem no_step_when_target_not_beyond:
  assumes "float_lt (Fin 0) h" and "float_le x_target x0"
    and "float_div (float_sub x_target x0) h = Fin q"
  shows "euler_method k x0 y0 x_target h =
           Inr \<lparr>col_Step = [0], col_x = [x0], col_y = [y0], col_dy_dx = [float_mul k y0],
                 col_delta_y = [Fin 0]\<rparr>"
proof -
  from quotient_nonpos[OF assms(2,1,3)] have q: "q \<le> 0" .
  have d: "py_truediv (float_sub x_target x0) h = Inr (Fin q)"
    using assms(1,3) by (cases h) simp_all
  obtain n where n: "int_py (Fin q) = Inr n" "n \<le> 0"
    using q by (simp add: ceiling_le_zero)
  then have "range_py 1 (n + 1) = []" by (simp add: range_py_empty)
  then show ?thesis using d n(1) by (simp add: euler_method_def)
qed

text \<open>
  At \<open>k = 3\<close>, \<open>x0 = 1\<close>, \<open>y0 = 2\<close>, \<open>x_target = 0\<close>, \<open>h = 0.5\<close>.
\<close>

theorem no_step_when_target_not_beyond_witness:
  "float_lt (Fin 0) (Fin (1 / 2)) \<and> float_le (Fin 0) (Fin 1) \<and>
   float_div (float_sub (Fin 0) (Fin 1)) (Fin (1 / 2)) = Fin (- 2) \<and>
   euler_method (Fin 3) (Fin 1) (Fin 2) (Fin 0) (Fin (1 / 2)) =
     Inr \<lparr>col_Step = [0], col_x = [Fin 1], col_y = [Fin 2],
           col_dy_dx = [float_mul (Fin 3) (Fin 2)], col_delta_y = [Fin 0]\<rparr> \<and>
   float_mul (Fin 3) (Fin 2) = Fin 6"
proof -
  have a: "float_lt (Fin 0) (Fin (1 / 2))" and b: "float_le (Fin 0) (Fin 1)" by simp_all
  note c = quotient_examples(2)
  have d: "float_mul (Fin 3) (Fin 2) = Fin 6" by (simp add: float_eval)
  from no_step_when_target_not_beyond[OF a b c, of "Fin 3" "Fin 2"] a b c d
  show ?thesis by blast
qed

end
